theory Spec2Isabelle
  imports Main
begin

section \<open>Python values, exceptions and string helpers\<close>

text \<open>
  The generator \<^verbatim>\<open>coreapi/help/doc/sphinx/gendoc.py\<close> is a Python script. Exceptions are
  values of the type \<open>error\<close>: \<^verbatim>\<open>ValueError\<close> carries its argument, \<^verbatim>\<open>AttributeError\<close> is
  what Python raises when an attribute of \<^verbatim>\<open>None\<close> is read, and \<^verbatim>\<open>OSError\<close> (with its
  alias \<^verbatim>\<open>IOError\<close>) is what \<^verbatim>\<open>os.mkdir\<close> and \<^verbatim>\<open>open\<close> raise; it carries the path.
\<close>

datatype error = ValueError string | AttributeError | OSError string

text \<open>
  The two kinds of value a \<^verbatim>\<open>ClassPage\<close> property returns: a \<^verbatim>\<open>bool\<close> (the result of a
  comparison) or an \<^verbatim>\<open>int\<close> (the result of \<^verbatim>\<open>len\<close>).
\<close>

datatype pyval = PyBool bool | PyInt int

text \<open>\<^verbatim>\<open>isinstance(v, bool)\<close>.\<close>

fun is_bool :: "pyval \<Rightarrow> bool" where
  "is_bool (PyBool b) = True"
| "is_bool (PyInt i) = False"

text \<open>Python's \<^verbatim>\<open>==\<close> on these values: \<^verbatim>\<open>True == 1\<close> and \<^verbatim>\<open>False == 0\<close> hold.\<close>

fun int_of_pyval :: "pyval \<Rightarrow> int" where
  "int_of_pyval (PyBool b) = (if b then 1 else 0)"
| "int_of_pyval (PyInt i) = i"

definition py_eq :: "pyval \<Rightarrow> pyval \<Rightarrow> bool" where
  "py_eq a b = (int_of_pyval a = int_of_pyval b)"

text \<open>Truthiness, as the template engine tests a section's value.\<close>

definition truthy :: "pyval \<Rightarrow> bool" where
  "truthy v = (int_of_pyval v \<noteq> 0)"

text \<open>
  \<^verbatim>\<open>str.lower()\<close> on a byte string: the letters \<^verbatim>\<open>A\<close> to \<^verbatim>\<open>Z\<close> (codes 65 to 90) move
  to \<^verbatim>\<open>a\<close> to \<^verbatim>\<open>z\<close>, every other byte stays. A string is a list of bytes, as the
  \<^verbatim>\<open>str\<close> of the Python the script is written for.
\<close>

definition lower_char :: "char \<Rightarrow> char" where
  "lower_char c =
     (let n = (of_char c :: nat) in if 65 \<le> n \<and> n \<le> 90 then char_of (n + 32) else c)"

definition lower :: "string \<Rightarrow> string" where
  "lower s = map lower_char s"

text \<open>\<^verbatim>\<open>sep.join(parts)\<close>.\<close>

fun join :: "string \<Rightarrow> string list \<Rightarrow> string" where
  "join sep [] = []"
| "join sep [x] = x"
| "join sep (x # y # ys) = x @ sep @ join sep (y # ys)"

text \<open>
  \<^verbatim>\<open>os.path.join(a, b)\<close> of \<^verbatim>\<open>posixpath\<close>: an absolute \<open>b\<close> replaces \<open>a\<close>; otherwise
  \<open>b\<close> is appended, after a slash unless \<open>a\<close> is empty or already ends with one.
\<close>

definition os_path_join :: "string \<Rightarrow> string \<Rightarrow> string" where
  "os_path_join a b =
     (if b \<noteq> [] \<and> hd b = CHR ''/'' then b
      else if a = [] \<or> last a = CHR ''/'' then a @ b
      else a @ ''/'' @ b)"

section \<open>RstTools\<close>

text \<open>
  \<^verbatim>\<open>make_section(text, char='=', overline=False)\<close>: the text, underlined (and, for a
  chapter, overlined) with \<^verbatim>\<open>char\<close> repeated \<^verbatim>\<open>len(text)\<close> times; the lines are joined
  with a newline.
\<close>

definition make_section :: "string \<Rightarrow> string \<Rightarrow> bool \<Rightarrow> string" where
  "make_section text' char' overline =
     (let size' = length text';
          underline = concat (replicate size' char');
          lines = [text', underline];
          lines = (if overline then underline # lines else lines)
      in join [CHR 0x0A] lines)"

definition make_chapter :: "string \<Rightarrow> string" where
  "make_chapter text' = make_section text' ''*'' True"

section \<open>SphinxPage\<close>

text \<open>
  The translator objects of the modules \<^verbatim>\<open>metaname\<close>, \<^verbatim>\<open>abstractapi\<close> and \<^verbatim>\<open>metadoc\<close>,
  as the constructors build them. The documentation translator is built from the name
  translator of the page.
\<close>

datatype name_translator = CTranslator | CppTranslator

datatype lang_translator = CLangTranslator | CppLangTranslator

datatype doc_translator = SphinxTranslator name_translator

record sphinx_page =
  language :: string
  nameTranslator :: name_translator
  langTranslator :: lang_translator
  docTranslator :: doc_translator
  filename :: string

text \<open>
  \<^verbatim>\<open>SphinxPage._init_translation_info\<close> (an Isabelle name cannot start with an
  underscore, so the leading underscore of a private method is dropped). It returns the
  three attributes it sets on the page, or the \<^verbatim>\<open>ValueError\<close> it raises.
\<close>

definition init_translation_info ::
  "string \<Rightarrow> error + (name_translator \<times> lang_translator \<times> doc_translator)" where
  "init_translation_info lang =
     (if lower lang = ''c'' then
        Inr (CTranslator, CLangTranslator, SphinxTranslator CTranslator)
      else if lower lang = ''c++'' then
        Inr (CppTranslator, CppLangTranslator, SphinxTranslator CppTranslator)
      else Inl (ValueError lang))"

text \<open>\<^verbatim>\<open>SphinxPage.__init__(self, language, filename)\<close>.\<close>

definition SphinxPage :: "string \<Rightarrow> string \<Rightarrow> error + sphinx_page" where
  "SphinxPage lang fname =
     (case init_translation_info lang of
        Inl e \<Rightarrow> Inl e
      | Inr (nt, lt, dt) \<Rightarrow>
          Inr \<lparr>language = lang, nameTranslator = nt, langTranslator = lt,
               docTranslator = dt, filename = fname\<rparr>)"

text \<open>\<^verbatim>\<open>DocGenerator._get_subdirectory\<close>.\<close>

definition get_subdirectory :: "string \<Rightarrow> error + string" where
  "get_subdirectory lang =
     (let loweredLang = lower lang in
      if loweredLang = ''c'' then Inr ''c''
      else if loweredLang = ''c++'' then Inr ''cpp''
      else Inl (ValueError ([CHR 0x27] @ lang @ [CHR 0x27] @ '' language not supported'')))"

section \<open>The abstract API, as the generator reads it\<close>

text \<open>
  The objects of \<^verbatim>\<open>abstractapi\<close> that reach the generator (enums, enumerators, classes,
  methods, namespaces) all carry a \<^verbatim>\<open>name\<close> (a \<^verbatim>\<open>metaname\<close> object, type \<open>'n\<close>) and a
  \<^verbatim>\<open>briefDescription\<close> (a \<^verbatim>\<open>metadoc\<close> object, type \<open>'d\<close>). The generator reads no other
  attribute of an enumerator, a method or a namespace; what else such an object holds
  (an enumerator's value, a method's signature, the parent link) is the field \<open>rest\<close>,
  of a type \<open>'x\<close> the generator never looks into.
\<close>

record ('n, 'd, 'x) api_object =
  name :: 'n
  briefDescription :: 'd
  rest :: 'x

record ('n, 'd, 'x) abstract_enum = "('n, 'd, 'x) api_object" +
  enumerators :: "('n, 'd, 'x) api_object list"

record ('n, 'd, 'x) abstract_class = "('n, 'd, 'x) api_object" +
  instanceMethods :: "('n, 'd, 'x) api_object list"
  classMethods :: "('n, 'd, 'x) api_object list"

section \<open>Page data\<close>

text \<open>
  The dictionaries a page holds have fixed string keys and become records; a field is
  named after its key, with a prefix where two dictionaries share a key.
\<close>

record toc_entry =
  entryName :: string

record translated_value =
  value_name :: string
  value_briefDesc :: string
  value_value :: string

record translated_enum =
  enum_name :: string
  enum_fullName :: string
  enum_briefDesc :: string
  enum_enumerators :: "translated_value list"
  enum_sectionName :: string

record meth_attr =
  prototype :: string
  brief :: string

record index_page = sphinx_page +
  tocEntries :: "toc_entry list"

record enums_page = sphinx_page +
  enums :: "translated_enum list"

record class_page = sphinx_page +
  namespace :: string
  className :: string
  fullClassName :: string
  classBrief :: string
  methods :: "meth_attr list"
  page_classMethods :: "meth_attr list"

section \<open>The modules the generator imports\<close>

text \<open>
  The modules \<^verbatim>\<open>metaname\<close>, \<^verbatim>\<open>metadoc\<close>, \<^verbatim>\<open>abstractapi\<close> and \<^verbatim>\<open>pystache\<close> and the
  templates are not part of the generator's file. Each method of theirs that the
  generator calls is a field of the record \<open>externals\<close>, a parameter of every
  definition that calls it:
  \<^item> \<open>translate_name t True n\<close> is the call \<^verbatim>\<open>n.translate(t, recursive=True)\<close> and
    \<open>translate_name t False n\<close> is the call \<^verbatim>\<open>n.translate(t)\<close>, which passes no keyword;
  \<^item> \<open>to_snake_case n\<close> is \<^verbatim>\<open>n.to_snake_case(fullName=True)\<close>;
  \<^item> \<open>translate_doc t d\<close> is \<^verbatim>\<open>d.translate(t)\<close>;
  \<^item> \<open>translate_value t e\<close> is \<^verbatim>\<open>e.translate_value(t)\<close>;
  \<^item> \<open>translate_as_prototype t m\<close> is \<^verbatim>\<open>m.translate_as_prototype(t)\<close>;
  \<^item> \<open>find_first_ancestor_by_type c\<close> is
    \<^verbatim>\<open>c.find_first_ancestor_by_type(abstractapi.Namespace)\<close>, \<open>None\<close> when the class has
    no such ancestor;
  \<^item> \<open>render_index\<close>, \<open>render_enums\<close> and \<open>render_class\<close> are \<^verbatim>\<open>pystache.Renderer().render\<close>
    on a page of the respective class, with the template of that class.
  They are functions: a call neither fails nor changes the abstract API.
\<close>

record ('n, 'd, 'x) externals =
  translate_name :: "name_translator \<Rightarrow> bool \<Rightarrow> 'n \<Rightarrow> string"
  to_snake_case :: "'n \<Rightarrow> string"
  translate_doc :: "doc_translator \<Rightarrow> 'd \<Rightarrow> string"
  translate_value :: "lang_translator \<Rightarrow> ('n, 'd, 'x) api_object \<Rightarrow> string"
  translate_as_prototype :: "lang_translator \<Rightarrow> ('n, 'd, 'x) api_object \<Rightarrow> string"
  find_first_ancestor_by_type ::
    "('n, 'd, 'x) abstract_class \<Rightarrow> ('n, 'd, 'x) api_object option"
  render_index :: "index_page \<Rightarrow> string"
  render_enums :: "enums_page \<Rightarrow> string"
  render_class :: "class_page \<Rightarrow> string"

section \<open>IndexPage, EnumsPage, ClassPage\<close>

text \<open>\<^verbatim>\<open>SphinxPage._classname_to_filename\<close>.\<close>

definition classname_to_filename :: "('n, 'd, 'x) externals \<Rightarrow> 'n \<Rightarrow> string" where
  "classname_to_filename ext classname = to_snake_case ext classname @ ''.rst''"

text \<open>\<^verbatim>\<open>IndexPage.__init__\<close> and \<^verbatim>\<open>IndexPage.add_class_entry\<close>.\<close>

definition IndexPage :: "string \<Rightarrow> error + index_page" where
  "IndexPage lang =
     (case SphinxPage lang ''index.rst'' of
        Inl e \<Rightarrow> Inl e
      | Inr self \<Rightarrow> Inr (sphinx_page.extend self (index_page.fields [])))"

definition add_class_entry ::
  "('n, 'd, 'x) externals \<Rightarrow> index_page \<Rightarrow> ('n, 'd, 'x) abstract_class \<Rightarrow> index_page" where
  "add_class_entry ext self c =
     self\<lparr>tocEntries := tocEntries self @ [\<lparr>entryName = classname_to_filename ext (name c)\<rparr>]\<rparr>"

text \<open>
  \<^verbatim>\<open>EnumsPage._translate_enum_values\<close>: the loop appends one dictionary per enumerator
  to the list \<^verbatim>\<open>translatedEnumerators\<close>, here the last argument.
\<close>

fun translate_enum_values_loop ::
  "('n, 'd, 'x) externals \<Rightarrow> sphinx_page \<Rightarrow> ('n, 'd, 'x) api_object list \<Rightarrow>
   translated_value list \<Rightarrow> translated_value list" where
  "translate_enum_values_loop ext self [] translatedEnumerators = translatedEnumerators"
| "translate_enum_values_loop ext self (e # es) translatedEnumerators =
     (let translatedValue =
        \<lparr>value_name = translate_name ext (nameTranslator self) False (name e),
         value_briefDesc = translate_doc ext (docTranslator self) (briefDescription e),
         value_value = translate_value ext (langTranslator self) e\<rparr>
      in translate_enum_values_loop ext self es (translatedEnumerators @ [translatedValue]))"

definition translate_enum_values ::
  "('n, 'd, 'x) externals \<Rightarrow> sphinx_page \<Rightarrow> ('n, 'd, 'x) abstract_enum \<Rightarrow>
   translated_value list" where
  "translate_enum_values ext self enum = translate_enum_values_loop ext self (enumerators enum) []"

text \<open>
  \<^verbatim>\<open>EnumsPage._translate_enums\<close>: the loop appends one dictionary per enum to
  \<^verbatim>\<open>self.enums\<close>, here the last argument; the key \<^verbatim>\<open>sectionName\<close> is computed from the
  translated name.
\<close>

fun translate_enums_loop ::
  "('n, 'd, 'x) externals \<Rightarrow> sphinx_page \<Rightarrow> ('n, 'd, 'x) abstract_enum list \<Rightarrow>
   translated_enum list \<Rightarrow> translated_enum list" where
  "translate_enums_loop ext self [] acc = acc"
| "translate_enums_loop ext self (enum # rest') acc =
     (let n = translate_name ext (nameTranslator self) False (name enum);
          translatedEnum =
            \<lparr>enum_name = n,
             enum_fullName = translate_name ext (nameTranslator self) True (name enum),
             enum_briefDesc = translate_doc ext (docTranslator self) (briefDescription enum),
             enum_enumerators = translate_enum_values ext self enum,
             enum_sectionName = make_section n ''='' False\<rparr>
      in translate_enums_loop ext self rest' (acc @ [translatedEnum]))"

definition translate_enums ::
  "('n, 'd, 'x) externals \<Rightarrow> sphinx_page \<Rightarrow> ('n, 'd, 'x) abstract_enum list \<Rightarrow>
   translated_enum list" where
  "translate_enums ext self es = translate_enums_loop ext self es []"

text \<open>\<^verbatim>\<open>EnumsPage.__init__\<close>.\<close>

definition EnumsPage ::
  "('n, 'd, 'x) externals \<Rightarrow> string \<Rightarrow> ('n, 'd, 'x) abstract_enum list \<Rightarrow> error + enums_page" where
  "EnumsPage ext lang es =
     (case SphinxPage lang ''enums.rst'' of
        Inl e \<Rightarrow> Inl e
      | Inr self \<Rightarrow> Inr (sphinx_page.extend self (enums_page.fields (translate_enums ext self es))))"

text \<open>
  \<^verbatim>\<open>ClassPage._get_translated_namespace\<close>: the attribute \<^verbatim>\<open>name\<close> of the ancestor is
  read with no test for \<^verbatim>\<open>None\<close>, so \<^verbatim>\<open>None\<close> raises \<^verbatim>\<open>AttributeError\<close>.
\<close>

definition get_translated_namespace ::
  "('n, 'd, 'x) externals \<Rightarrow> sphinx_page \<Rightarrow> ('n, 'd, 'x) abstract_class \<Rightarrow> error + string" where
  "get_translated_namespace ext self c =
     (case find_first_ancestor_by_type ext c of
        None \<Rightarrow> Inl AttributeError
      | Some ns \<Rightarrow> Inr (translate_name ext (nameTranslator self) True (name ns)))"

text \<open>\<^verbatim>\<open>ClassPage._translate_methods\<close>.\<close>

fun translate_methods_loop ::
  "('n, 'd, 'x) externals \<Rightarrow> sphinx_page \<Rightarrow> ('n, 'd, 'x) api_object list \<Rightarrow>
   meth_attr list \<Rightarrow> meth_attr list" where
  "translate_methods_loop ext self [] translatedMethods = translatedMethods"
| "translate_methods_loop ext self (m # ms) translatedMethods =
     (let methAttr =
        \<lparr>prototype = translate_as_prototype ext (langTranslator self) m,
         brief = translate_doc ext (docTranslator self) (briefDescription m)\<rparr>
      in translate_methods_loop ext self ms (translatedMethods @ [methAttr]))"

definition translate_methods ::
  "('n, 'd, 'x) externals \<Rightarrow> sphinx_page \<Rightarrow> ('n, 'd, 'x) api_object list \<Rightarrow> meth_attr list" where
  "translate_methods ext self ms = translate_methods_loop ext self ms []"

text \<open>
  \<^verbatim>\<open>ClassPage.__init__\<close>: the file name is derived first, then the base constructor
  runs (and may raise \<^verbatim>\<open>ValueError\<close>), then the namespace is looked up (and may raise
  \<^verbatim>\<open>AttributeError\<close>), then the names, the description and the two method lists are
  translated.
\<close>

definition ClassPage ::
  "('n, 'd, 'x) externals \<Rightarrow> ('n, 'd, 'x) abstract_class \<Rightarrow> string \<Rightarrow> error + class_page" where
  "ClassPage ext c lang =
     (let fname = classname_to_filename ext (name c) in
      case SphinxPage lang fname of
        Inl e \<Rightarrow> Inl e
      | Inr self \<Rightarrow>
          (case get_translated_namespace ext self c of
             Inl e \<Rightarrow> Inl e
           | Inr ns \<Rightarrow>
               Inr (sphinx_page.extend self
                 (class_page.fields ns
                    (translate_name ext (nameTranslator self) False (name c))
                    (translate_name ext (nameTranslator self) True (name c))
                    (translate_doc ext (docTranslator self) (briefDescription c))
                    (translate_methods ext self (instanceMethods c))
                    (translate_methods ext self (classMethods c))))))"

text \<open>
  The properties \<^verbatim>\<open>hasMethods\<close> and \<^verbatim>\<open>hasClassMethods\<close>, that is the methods
  \<^verbatim>\<open>_has_methods\<close>, which returns the comparison \<^verbatim>\<open>len(self.methods) > 0\<close>, and
  \<^verbatim>\<open>_has_class_methods\<close>, which returns \<^verbatim>\<open>len(self.classMethods)\<close>.
\<close>

definition has_methods :: "class_page \<Rightarrow> pyval" where
  "has_methods self = PyBool (length (methods self) > 0)"

definition has_class_methods :: "class_page \<Rightarrow> pyval" where
  "has_class_methods self = PyInt (int (length (page_classMethods self)))"

abbreviation hasMethods :: "class_page \<Rightarrow> pyval" where
  "hasMethods \<equiv> has_methods"

abbreviation hasClassMethods :: "class_page \<Rightarrow> pyval" where
  "hasClassMethods \<equiv> has_class_methods"

section \<open>The file system\<close>

text \<open>
  The generator reaches the file system through \<^verbatim>\<open>os.path.exists\<close>, \<^verbatim>\<open>os.mkdir\<close> and
  \<^verbatim>\<open>open(filepath, mode='w')\<close> followed by one \<^verbatim>\<open>write\<close>. The state \<open>world\<close> holds the
  directories and the files (a path is a string; paths are compared as strings, with
  no resolution of \<^verbatim>\<open>..\<close> or of links), the set \<open>refused\<close> of the paths at which the
  operating system refuses \<^verbatim>\<open>mkdir\<close> and \<^verbatim>\<open>open\<close> (permissions, a missing parent), and
  the \<open>trace\<close> of the operations that succeeded, in the order they were made. An
  exception leaves the world as it is at that point: every operation returns the
  exception, if any, together with the world.
\<close>

datatype io_event = Mkdir string | Write string string

record world =
  directories :: "string set"
  files :: "string \<rightharpoonup> string"
  refused :: "string set"
  trace :: "io_event list"

definition os_path_exists :: "world \<Rightarrow> string \<Rightarrow> bool" where
  "os_path_exists w p = (p \<in> directories w \<or> files w p \<noteq> None)"

definition os_mkdir :: "string \<Rightarrow> world \<Rightarrow> error option \<times> world" where
  "os_mkdir p w =
     (if p \<in> refused w \<or> os_path_exists w p then (Some (OSError p), w)
      else (None, w\<lparr>directories := insert p (directories w), trace := trace w @ [Mkdir p]\<rparr>))"

text \<open>
  \<^verbatim>\<open>with open(p, mode='w') as f: f.write(data)\<close>: the file is created or truncated, so
  what it held before is lost.
\<close>

definition open_write :: "string \<Rightarrow> string \<Rightarrow> world \<Rightarrow> error option \<times> world" where
  "open_write p data w =
     (if p \<in> refused w \<or> p \<in> directories w then (Some (OSError p), w)
      else (None, w\<lparr>files := (files w)(p \<mapsto> data), trace := trace w @ [Write p data]\<rparr>))"

text \<open>
  \<^verbatim>\<open>SphinxPage.write(self, directory)\<close>, named \<open>write_page\<close> since \<open>write\<close> is a
  keyword of Isabelle. The first argument is the renderer of the class of \<open>self\<close>.
\<close>

definition write_page ::
  "('a sphinx_page_scheme \<Rightarrow> string) \<Rightarrow> 'a sphinx_page_scheme \<Rightarrow> string \<Rightarrow> world \<Rightarrow>
   error option \<times> world" where
  "write_page render self directory w =
     (let filepath = os_path_join directory (filename self)
      in open_write filepath (render self) w)"

section \<open>DocGenerator\<close>

text \<open>
  The module-level names \<^verbatim>\<open>args\<close> and \<^verbatim>\<open>absApiParser\<close>, bound when the file runs as a
  script. The two indices of the parser are dictionaries; \<^verbatim>\<open>values()\<close> lists them in
  the dictionary's iteration order, which is the order of the association list here.
\<close>

record ('n, 'd, 'x) parser =
  enumsIndex :: "(string \<times> ('n, 'd, 'x) abstract_enum) list"
  classesIndex :: "(string \<times> ('n, 'd, 'x) abstract_class) list"

definition dict_values :: "('k \<times> 'v) list \<Rightarrow> 'v list" where
  "dict_values d = map snd d"

record ('n, 'd, 'x) globals =
  args_outputdir :: string
  absApiParser :: "('n, 'd, 'x) parser"

record ('n, 'd, 'x) doc_generator =
  api :: "('n, 'd, 'x) parser"
  languages :: "string list"

text \<open>\<^verbatim>\<open>DocGenerator.__init__\<close>.\<close>

definition DocGenerator :: "('n, 'd, 'x) parser \<Rightarrow> ('n, 'd, 'x) doc_generator" where
  "DocGenerator a = \<lparr>api = a, languages = [''C'', ''C++'']\<rparr>"

text \<open>
  The inner loop of \<^verbatim>\<open>DocGenerator.generate\<close>, over the classes: build the page of the
  class, write it, add its entry to the index page. It returns the index page.
\<close>

fun class_loop ::
  "('n, 'd, 'x) externals \<Rightarrow> string \<Rightarrow> string \<Rightarrow> ('n, 'd, 'x) abstract_class list \<Rightarrow>
   index_page \<Rightarrow> world \<Rightarrow> (error + index_page) \<times> world" where
  "class_loop ext lang directory [] indexPage w = (Inr indexPage, w)"
| "class_loop ext lang directory (c # cs) indexPage w =
     (case ClassPage ext c lang of
        Inl e \<Rightarrow> (Inl e, w)
      | Inr page \<Rightarrow>
          (case write_page (render_class ext) page directory w of
             (Some e, w') \<Rightarrow> (Inl e, w')
           | (None, w') \<Rightarrow>
               class_loop ext lang directory cs (add_class_entry ext indexPage c) w'))"

text \<open>The body of the outer loop of \<^verbatim>\<open>DocGenerator.generate\<close>, for one language.\<close>

definition generate_language ::
  "('n, 'd, 'x) globals \<Rightarrow> ('n, 'd, 'x) externals \<Rightarrow> string \<Rightarrow> world \<Rightarrow>
   error option \<times> world" where
  "generate_language g ext lang w =
     (case get_subdirectory lang of
        Inl e \<Rightarrow> (Some e, w)
      | Inr subdirectory \<Rightarrow>
          (let directory = os_path_join (args_outputdir g) subdirectory in
           case (if \<not> os_path_exists w directory then os_mkdir directory w else (None, w)) of
             (Some e, w1) \<Rightarrow> (Some e, w1)
           | (None, w1) \<Rightarrow>
               (case EnumsPage ext lang (dict_values (enumsIndex (absApiParser g))) of
                  Inl e \<Rightarrow> (Some e, w1)
                | Inr enumsPage \<Rightarrow>
                    (case write_page (render_enums ext) enumsPage directory w1 of
                       (Some e, w2) \<Rightarrow> (Some e, w2)
                     | (None, w2) \<Rightarrow>
                         (case IndexPage lang of
                            Inl e \<Rightarrow> (Some e, w2)
                          | Inr indexPage \<Rightarrow>
                              (case class_loop ext lang directory
                                      (dict_values (classesIndex (absApiParser g))) indexPage w2 of
                                 (Inl e, w3) \<Rightarrow> (Some e, w3)
                               | (Inr indexPage', w3) \<Rightarrow>
                                   write_page (render_index ext) indexPage' directory w3))))))"

text \<open>
  \<^verbatim>\<open>DocGenerator.generate(self, outputdir)\<close>: the loop over \<^verbatim>\<open>self.languages\<close>. The body
  reads \<^verbatim>\<open>args.outputdir\<close> and \<^verbatim>\<open>absApiParser\<close>, the module-level names.
\<close>

fun generate_loop ::
  "('n, 'd, 'x) globals \<Rightarrow> ('n, 'd, 'x) externals \<Rightarrow> string list \<Rightarrow> world \<Rightarrow>
   error option \<times> world" where
  "generate_loop g ext [] w = (None, w)"
| "generate_loop g ext (lang # langs) w =
     (case generate_language g ext lang w of
        (Some e, w') \<Rightarrow> (Some e, w')
      | (None, w') \<Rightarrow> generate_loop g ext langs w')"

definition generate ::
  "('n, 'd, 'x) globals \<Rightarrow> ('n, 'd, 'x) externals \<Rightarrow> ('n, 'd, 'x) doc_generator \<Rightarrow> string \<Rightarrow>
   world \<Rightarrow> error option \<times> world" where
  "generate g ext self outputdir w = generate_loop g ext (languages self) w"

section \<open>The requests of a run\<close>

text \<open>
  Which pages a run builds, and what it asks of the file system, does not depend on the
  file system: \<open>generate_script\<close> lists the requests of \<^verbatim>\<open>DocGenerator.generate\<close> in
  order (make sure a directory exists, write a file, or stop with the exception a
  constructor raised), and \<open>exec\<close> carries them out. The lemma \<open>generate_loop_exec\<close>
  below shows that this is the same run.
\<close>

datatype action = Ensure string | WriteFile string string | Raise error

fun exec :: "action list \<Rightarrow> world \<Rightarrow> error option \<times> world" where
  "exec [] w = (None, w)"
| "exec (Ensure d # acts) w =
     (case (if \<not> os_path_exists w d then os_mkdir d w else (None, w)) of
        (Some e, w') \<Rightarrow> (Some e, w')
      | (None, w') \<Rightarrow> exec acts w')"
| "exec (WriteFile p data # acts) w =
     (case open_write p data w of
        (Some e, w') \<Rightarrow> (Some e, w')
      | (None, w') \<Rightarrow> exec acts w')"
| "exec (Raise e # acts) w = (Some e, w)"

fun class_script ::
  "('n, 'd, 'x) externals \<Rightarrow> string \<Rightarrow> string \<Rightarrow> ('n, 'd, 'x) abstract_class list \<Rightarrow>
   index_page \<Rightarrow> action list" where
  "class_script ext lang directory [] indexPage =
     [WriteFile (os_path_join directory (filename indexPage)) (render_index ext indexPage)]"
| "class_script ext lang directory (c # cs) indexPage =
     (case ClassPage ext c lang of
        Inl e \<Rightarrow> [Raise e]
      | Inr page \<Rightarrow>
          WriteFile (os_path_join directory (filename page)) (render_class ext page) #
          class_script ext lang directory cs (add_class_entry ext indexPage c))"

definition language_script ::
  "('n, 'd, 'x) globals \<Rightarrow> ('n, 'd, 'x) externals \<Rightarrow> string \<Rightarrow> action list" where
  "language_script g ext lang =
     (case get_subdirectory lang of
        Inl e \<Rightarrow> [Raise e]
      | Inr subdirectory \<Rightarrow>
          (let directory = os_path_join (args_outputdir g) subdirectory in
           Ensure directory #
           (case EnumsPage ext lang (dict_values (enumsIndex (absApiParser g))) of
              Inl e \<Rightarrow> [Raise e]
            | Inr enumsPage \<Rightarrow>
                WriteFile (os_path_join directory (filename enumsPage))
                  (render_enums ext enumsPage) #
                (case IndexPage lang of
                   Inl e \<Rightarrow> [Raise e]
                 | Inr indexPage \<Rightarrow>
                     class_script ext lang directory
                       (dict_values (classesIndex (absApiParser g))) indexPage))))"

definition generate_script ::
  "('n, 'd, 'x) globals \<Rightarrow> ('n, 'd, 'x) externals \<Rightarrow> string list \<Rightarrow> action list" where
  "generate_script g ext langs = concat (map (language_script g ext) langs)"

text \<open>The files a piece of trace wrote, in order, and the events a run added.\<close>

fun written :: "io_event list \<Rightarrow> (string \<times> string) list" where
  "written [] = []"
| "written (Mkdir d # evs) = written evs"
| "written (Write p data # evs) = (p, data) # written evs"

text \<open>The files a list of requests asks for, in order, up to the first exception.\<close>

fun requested :: "action list \<Rightarrow> (string \<times> string) list" where
  "requested [] = []"
| "requested (Ensure d # acts) = requested acts"
| "requested (WriteFile p data # acts) = (p, data) # requested acts"
| "requested (Raise e # acts) = []"

definition new_events :: "world \<Rightarrow> world \<Rightarrow> io_event list" where
  "new_events w w' = drop (length (trace w)) (trace w')"

section \<open>The pages of one language\<close>

text \<open>
  What the specification lists for one language (sections 4.4 and 6), written out: the
  Enums page, with every enum of the parser and every enumerator of it translated in
  order; one page per class of the parser, in order; and the Index page, with one entry
  per class. Each page is paired with the path it is written to, and a page is what
  the renderer makes of it. This list is not a function of the generator: it is what
  the writes of a run are compared with.
\<close>

definition language_pages ::
  "('n, 'd, 'x) globals \<Rightarrow> ('n, 'd, 'x) externals \<Rightarrow> string \<Rightarrow> string \<Rightarrow> name_translator \<Rightarrow>
   lang_translator \<Rightarrow> doc_translator \<Rightarrow> (string \<times> string) list" where
  "language_pages g ext lang sub nt lt dt =
     (os_path_join (os_path_join (args_outputdir g) sub) ''enums.rst'',
        render_enums ext
          \<lparr>language = lang, nameTranslator = nt, langTranslator = lt, docTranslator = dt,
           filename = ''enums.rst'',
           enums = map (\<lambda>enum.
             \<lparr>enum_name = translate_name ext nt False (name enum),
              enum_fullName = translate_name ext nt True (name enum),
              enum_briefDesc = translate_doc ext dt (briefDescription enum),
              enum_enumerators = map (\<lambda>e.
                \<lparr>value_name = translate_name ext nt False (name e),
                 value_briefDesc = translate_doc ext dt (briefDescription e),
                 value_value = translate_value ext lt e\<rparr>) (enumerators enum),
              enum_sectionName =
                make_section (translate_name ext nt False (name enum)) ''='' False\<rparr>)
             (dict_values (enumsIndex (absApiParser g)))\<rparr>) #
       map (\<lambda>c. (os_path_join (os_path_join (args_outputdir g) sub)
                   (classname_to_filename ext (name c)),
                 render_class ext (projr (ClassPage ext c lang))))
         (dict_values (classesIndex (absApiParser g))) @
       [(os_path_join (os_path_join (args_outputdir g) sub) ''index.rst'',
         render_index ext
           \<lparr>language = lang, nameTranslator = nt, langTranslator = lt, docTranslator = dt,
            filename = ''index.rst'',
            tocEntries = map (\<lambda>c. \<lparr>entryName = classname_to_filename ext (name c)\<rparr>)
              (dict_values (classesIndex (absApiParser g)))\<rparr>)]"

section \<open>Translating twice\<close>

text \<open>
  Modelled from the spec: the determinism of the modules \<^verbatim>\<open>metaname\<close>, \<^verbatim>\<open>metadoc\<close>,
  \<^verbatim>\<open>abstractapi\<close> and \<^verbatim>\<open>pystache\<close>, which are not in the generator's file. The
  specification says that translation is a pure function of the identifier and of the
  language variant, that it never changes the abstract API, and that translating the
  same identifier twice for the same language yields the same string. With \<open>ext\<close> what
  the modules return during one run and \<open>ext'\<close> what they return during another,
  \<open>same_translation g langs ext ext'\<close> says so for the calls the generator makes: on
  every name, description, enumerator and method of the enums and classes of the
  parser, each translation returns in the second run what it returned in the first,
  the ancestor of a class is the same, and the renderer returns the same text for the
  pages of the languages \<open>langs\<close>.
\<close>

definition same_name :: "('n, 'd, 'x) externals \<Rightarrow> ('n, 'd, 'x) externals \<Rightarrow> 'n \<Rightarrow> bool" where
  "same_name ext ext' n =
     (\<forall>t \<in> {CTranslator, CppTranslator}. \<forall>r \<in> {False, True}.
        translate_name ext' t r n = translate_name ext t r n)"

definition same_doc :: "('n, 'd, 'x) externals \<Rightarrow> ('n, 'd, 'x) externals \<Rightarrow> 'd \<Rightarrow> bool" where
  "same_doc ext ext' d =
     (\<forall>t \<in> {CTranslator, CppTranslator}.
        translate_doc ext' (SphinxTranslator t) d = translate_doc ext (SphinxTranslator t) d)"

definition same_translation ::
  "('n, 'd, 'x) globals \<Rightarrow> string list \<Rightarrow> ('n, 'd, 'x) externals \<Rightarrow> ('n, 'd, 'x) externals \<Rightarrow>
   bool" where
  "same_translation g langs ext ext' =
     ((\<forall>enum \<in> set (dict_values (enumsIndex (absApiParser g))).
         same_name ext ext' (name enum) \<and> same_doc ext ext' (briefDescription enum) \<and>
         (\<forall>e \<in> set (enumerators enum).
            same_name ext ext' (name e) \<and> same_doc ext ext' (briefDescription e) \<and>
            (\<forall>lt \<in> {CLangTranslator, CppLangTranslator}.
               translate_value ext' lt e = translate_value ext lt e))) \<and>
      (\<forall>c \<in> set (dict_values (classesIndex (absApiParser g))).
         same_name ext ext' (name c) \<and> same_doc ext ext' (briefDescription c) \<and>
         to_snake_case ext' (name c) = to_snake_case ext (name c) \<and>
         find_first_ancestor_by_type ext' c = find_first_ancestor_by_type ext c \<and>
         (\<forall>ns \<in> set_option (find_first_ancestor_by_type ext c). same_name ext ext' (name ns)) \<and>
         (\<forall>m \<in> set (instanceMethods c @ classMethods c).
            same_doc ext ext' (briefDescription m) \<and>
            (\<forall>lt \<in> {CLangTranslator, CppLangTranslator}.
               translate_as_prototype ext' lt m = translate_as_prototype ext lt m))) \<and>
      (\<forall>lang \<in> set langs.
         (case EnumsPage ext lang (dict_values (enumsIndex (absApiParser g))) of
            Inl e \<Rightarrow> True
          | Inr page \<Rightarrow> render_enums ext' page = render_enums ext page) \<and>
         (\<forall>c \<in> set (dict_values (classesIndex (absApiParser g))).
            case ClassPage ext c lang of
              Inl e \<Rightarrow> True
            | Inr page \<Rightarrow> render_class ext' page = render_class ext page) \<and>
         (case IndexPage lang of
            Inl e \<Rightarrow> True
          | Inr page \<Rightarrow>
              render_index ext'
                (page\<lparr>tocEntries := map (\<lambda>c. \<lparr>entryName = classname_to_filename ext (name c)\<rparr>)
                   (dict_values (classesIndex (absApiParser g)))\<rparr>) =
              render_index ext
                (page\<lparr>tocEntries := map (\<lambda>c. \<lparr>entryName = classname_to_filename ext (name c)\<rparr>)
                   (dict_values (classesIndex (absApiParser g)))\<rparr>))))"

section \<open>Identifiers, as the specification describes them\<close>

text \<open>
  Modelled from the spec: the identifiers of the module \<^verbatim>\<open>metaname\<close> and their method
  \<^verbatim>\<open>to_snake_case\<close>, which are not in the generator's file. The specification says that
  an identifier carries its structure (segments), and that the file name of a class
  page comes from the fully-qualified name of the class, lowercased, with the namespace
  segments separated and underscored: the class \<^verbatim>\<open>BarBaz\<close> of the namespace \<^verbatim>\<open>Foo\<close> gives
  \<^verbatim>\<open>foo_bar_baz\<close>. A fully-qualified name is the list of its segments, outermost
  namespace first, and a segment is the list of its words.
\<close>

type_synonym spec_name = "string list list"

definition spec_to_snake_case :: "spec_name \<Rightarrow> string" where
  "spec_to_snake_case n = join ''_'' (map lower (concat n))"

section \<open>Example inputs\<close>

text \<open>
  A small project in the shape of the specification's scenarios: the namespace
  \<^verbatim>\<open>Foo\<close> with the class \<^verbatim>\<open>BarBaz\<close> (one instance method), the class \<^verbatim>\<open>Util\<close> (two class
  methods), and the enum \<^verbatim>\<open>Color\<close> whose enumerators are declared in the order
  \<^verbatim>\<open>B, A, C\<close>; and the class \<^verbatim>\<open>Orphan\<close>, which has no namespace above it. The stand-ins
  for the imported modules are simple functions of the same types.
\<close>

definition ex_ext :: "(spec_name, string, string) externals" where
  "ex_ext =
     \<lparr>translate_name = (\<lambda>t r n.
         (case t of CTranslator \<Rightarrow> ''c:'' | CppTranslator \<Rightarrow> ''cpp:'') @
         join ''.'' (map concat (if r then n else [last n]))),
      to_snake_case = spec_to_snake_case,
      translate_doc = (\<lambda>t d. d),
      translate_value = (\<lambda>t e. rest e),
      translate_as_prototype = (\<lambda>t m.
         (case t of CLangTranslator \<Rightarrow> ''c:'' | CppLangTranslator \<Rightarrow> ''cpp:'') @ rest m),
      find_first_ancestor_by_type = (\<lambda>c.
         if length (name c) \<le> 1 then None
         else Some \<lparr>name = butlast (name c), briefDescription = [], rest = []\<rparr>),
      render_index = (\<lambda>p. join '','' (map entryName (tocEntries p))),
      render_enums = (\<lambda>p. join '','' (map enum_name (enums p))),
      render_class = (\<lambda>p. fullClassName p)\<rparr>"

definition ex_method :: "string \<Rightarrow> (spec_name, string, string) api_object" where
  "ex_method m = \<lparr>name = [[''Foo''], [''Bar'', ''Baz''], [m]], briefDescription = ''Brief.'',
     rest = m @ ''()''\<rparr>"

definition ex_class :: "(spec_name, string, string) abstract_class" where
  "ex_class =
     \<lparr>name = [[''Foo''], [''Bar'', ''Baz'']], briefDescription = ''A class.'', rest = [],
      instanceMethods = [ex_method ''doThing''], classMethods = []\<rparr>"

definition ex_util :: "(spec_name, string, string) abstract_class" where
  "ex_util =
     \<lparr>name = [[''Foo''], [''Util'']], briefDescription = ''Helpers.'', rest = [],
      instanceMethods = [], classMethods = [ex_method ''create'', ex_method ''version'']\<rparr>"

definition ex_orphan :: "(spec_name, string, string) abstract_class" where
  "ex_orphan =
     \<lparr>name = [[''Orphan'']], briefDescription = [], rest = [],
      instanceMethods = [], classMethods = []\<rparr>"

definition ex_enumerator :: "string \<Rightarrow> string \<Rightarrow> (spec_name, string, string) api_object" where
  "ex_enumerator n v = \<lparr>name = [[''Foo''], [''Color''], [n]], briefDescription = [], rest = v\<rparr>"

definition ex_enum :: "(spec_name, string, string) abstract_enum" where
  "ex_enum =
     \<lparr>name = [[''Foo''], [''Color'']], briefDescription = ''Colors.'', rest = [],
      enumerators = [ex_enumerator ''B'' ''0'', ex_enumerator ''A'' ''1'', ex_enumerator ''C'' ''2'']\<rparr>"

definition ex_parser :: "(spec_name, string, string) parser" where
  "ex_parser =
     \<lparr>enumsIndex = [(''Foo::Color'', ex_enum)],
      classesIndex = [(''Foo::BarBaz'', ex_class), (''Foo::Util'', ex_util)]\<rparr>"

definition ex_globals :: "(spec_name, string, string) globals" where
  "ex_globals = \<lparr>args_outputdir = ''out'', absApiParser = ex_parser\<rparr>"

definition ex_world :: world where
  "ex_world = \<lparr>directories = {''out''}, files = Map.empty, refused = {}, trace = []\<rparr>"

text \<open>
  A second behaviour of the modules: it differs from \<open>ex_ext\<close> on a description that is
  not in the project.
\<close>

definition ex_ext2 :: "(spec_name, string, string) externals" where
  "ex_ext2 = ex_ext\<lparr>translate_doc := (\<lambda>t d. if d = ''Elsewhere.'' then ''Other.'' else d)\<rparr>"

section \<open>Auxiliary facts\<close>

lemma of_char_lower_char:
  "(of_char (lower_char c) :: nat) =
     (if 65 \<le> (of_char c :: nat) \<and> (of_char c :: nat) \<le> 90 then of_char c + 32 else of_char c)"
  by (simp add: lower_char_def Let_def)

lemma lower_char_eq_iff:
  "lower_char x = y \<longleftrightarrow>
     (if 65 \<le> (of_char x :: nat) \<and> (of_char x :: nat) \<le> 90 then of_char x + 32 else of_char x) =
     (of_char y :: nat)"
  using of_char_lower_char[of x] of_char_eq_iff[of "lower_char x" y, where ?'a = nat] by simp

lemma lower_char_eq_c: "lower_char x = CHR ''c'' \<longleftrightarrow> x = CHR ''c'' \<or> x = CHR ''C''"
proof -
  have a: "x = CHR ''c'' \<longleftrightarrow> (of_char x :: nat) = 99"
    using of_char_eq_iff[of x "CHR ''c''", where ?'a = nat] by simp
  have b: "x = CHR ''C'' \<longleftrightarrow> (of_char x :: nat) = 67"
    using of_char_eq_iff[of x "CHR ''C''", where ?'a = nat] by simp
  show ?thesis unfolding lower_char_eq_iff a b by auto
qed

lemma lower_char_eq_plus: "lower_char x = CHR ''+'' \<longleftrightarrow> x = CHR ''+''"
proof -
  have a: "x = CHR ''+'' \<longleftrightarrow> (of_char x :: nat) = 43"
    using of_char_eq_iff[of x "CHR ''+''", where ?'a = nat] by simp
  show ?thesis unfolding lower_char_eq_iff a by auto
qed

lemma lower_eq_c: "lower s = ''c'' \<longleftrightarrow> s = ''c'' \<or> s = ''C''"
  by (auto simp: lower_def lower_char_eq_c)

lemma lower_eq_cpp: "lower s = ''c++'' \<longleftrightarrow> s = ''c++'' \<or> s = ''C++''"
  by (auto simp: lower_def lower_char_eq_c lower_char_eq_plus)

lemma SphinxPage_eq:
  "SphinxPage lang f =
     (if lower lang = ''c'' then
        Inr \<lparr>language = lang, nameTranslator = CTranslator, langTranslator = CLangTranslator,
             docTranslator = SphinxTranslator CTranslator, filename = f\<rparr>
      else if lower lang = ''c++'' then
        Inr \<lparr>language = lang, nameTranslator = CppTranslator, langTranslator = CppLangTranslator,
             docTranslator = SphinxTranslator CppTranslator, filename = f\<rparr>
      else Inl (ValueError lang))"
  by (simp add: SphinxPage_def init_translation_info_def)

lemma SphinxPage_unsupported:
  "lower lang \<noteq> ''c'' \<Longrightarrow> lower lang \<noteq> ''c++'' \<Longrightarrow> SphinxPage lang f = Inl (ValueError lang)"
  by (simp add: SphinxPage_eq)

lemma SphinxPage_Inr:
  "SphinxPage lang f = Inr p \<Longrightarrow>
     (lower lang = ''c'' \<or> lower lang = ''c++'') \<and> language p = lang \<and> filename p = f"
  by (auto simp: SphinxPage_eq split: if_splits)

lemma SphinxPage_Inl:
  "SphinxPage lang f = Inl e \<Longrightarrow> e = ValueError lang \<and> lower lang \<noteq> ''c'' \<and> lower lang \<noteq> ''c++''"
  by (auto simp: SphinxPage_eq split: if_splits)

lemma SphinxPage_filename_indep:
  "SphinxPage lang f = Inl e \<Longrightarrow> SphinxPage lang f' = Inl e"
  by (auto simp: SphinxPage_eq split: if_splits)

lemma IndexPage_eq:
  "IndexPage lang =
     (case SphinxPage lang ''index.rst'' of
        Inl e \<Rightarrow> Inl e
      | Inr self \<Rightarrow>
          Inr \<lparr>language = language self, nameTranslator = nameTranslator self,
               langTranslator = langTranslator self, docTranslator = docTranslator self,
               filename = filename self, tocEntries = []\<rparr>)"
  by (simp add: IndexPage_def sphinx_page.defs index_page.defs split: sum.splits)

lemma EnumsPage_eq:
  "EnumsPage ext lang es =
     (case SphinxPage lang ''enums.rst'' of
        Inl e \<Rightarrow> Inl e
      | Inr self \<Rightarrow>
          Inr \<lparr>language = language self, nameTranslator = nameTranslator self,
               langTranslator = langTranslator self, docTranslator = docTranslator self,
               filename = filename self, enums = translate_enums ext self es\<rparr>)"
  by (simp add: EnumsPage_def sphinx_page.defs enums_page.defs split: sum.splits)

lemma ClassPage_eq:
  "ClassPage ext c lang =
     (case SphinxPage lang (classname_to_filename ext (name c)) of
        Inl e \<Rightarrow> Inl e
      | Inr self \<Rightarrow>
          (case find_first_ancestor_by_type ext c of
             None \<Rightarrow> Inl AttributeError
           | Some ns \<Rightarrow>
               Inr \<lparr>language = language self, nameTranslator = nameTranslator self,
                    langTranslator = langTranslator self, docTranslator = docTranslator self,
                    filename = filename self,
                    namespace = translate_name ext (nameTranslator self) True (name ns),
                    className = translate_name ext (nameTranslator self) False (name c),
                    fullClassName = translate_name ext (nameTranslator self) True (name c),
                    classBrief = translate_doc ext (docTranslator self) (briefDescription c),
                    methods = translate_methods ext self (instanceMethods c),
                    page_classMethods = translate_methods ext self (classMethods c)\<rparr>))"
  by (simp add: ClassPage_def get_translated_namespace_def sphinx_page.defs class_page.defs Let_def
      split: sum.splits option.splits)

lemma translate_enum_values_loop_map:
  "translate_enum_values_loop ext self es acc =
     acc @ map (\<lambda>e. \<lparr>value_name = translate_name ext (nameTranslator self) False (name e),
                     value_briefDesc = translate_doc ext (docTranslator self) (briefDescription e),
                     value_value = translate_value ext (langTranslator self) e\<rparr>) es"
  by (induction es arbitrary: acc) simp_all

lemma translate_enums_loop_map:
  "translate_enums_loop ext self es acc =
     acc @ map (\<lambda>enum.
       \<lparr>enum_name = translate_name ext (nameTranslator self) False (name enum),
        enum_fullName = translate_name ext (nameTranslator self) True (name enum),
        enum_briefDesc = translate_doc ext (docTranslator self) (briefDescription enum),
        enum_enumerators = translate_enum_values ext self enum,
        enum_sectionName =
          make_section (translate_name ext (nameTranslator self) False (name enum)) ''='' False\<rparr>) es"
  by (induction es arbitrary: acc) (simp_all add: Let_def)

lemma translate_methods_loop_map:
  "translate_methods_loop ext self ms acc =
     acc @ map (\<lambda>m. \<lparr>prototype = translate_as_prototype ext (langTranslator self) m,
                     brief = translate_doc ext (docTranslator self) (briefDescription m)\<rparr>) ms"
  by (induction ms arbitrary: acc) simp_all

lemma length_translate_methods: "length (translate_methods ext self ms) = length ms"
  by (simp add: translate_methods_def translate_methods_loop_map)

lemma get_subdirectory_eq:
  "get_subdirectory lang =
     (if lower lang = ''c'' then Inr ''c''
      else if lower lang = ''c++'' then Inr ''cpp''
      else Inl (ValueError ([CHR 0x27] @ lang @ [CHR 0x27] @ '' language not supported'')))"
  by (simp add: get_subdirectory_def Let_def)

lemma translate_methods_Nil_iff: "translate_methods ext self ms = [] \<longleftrightarrow> ms = []"
  using length_translate_methods[of ext self ms] by (metis length_0_conv)

lemma sphinx_page_eta:
  "\<lparr>language = language x, nameTranslator = nameTranslator x, langTranslator = langTranslator x,
    docTranslator = docTranslator x, filename = filename x\<rparr> = (x :: sphinx_page)"
  by simp

lemma write_page_eq:
  "write_page render self directory w =
     (if os_path_join directory (filename self) \<in> refused w \<or>
         os_path_join directory (filename self) \<in> directories w
      then (Some (OSError (os_path_join directory (filename self))), w)
      else (None, w\<lparr>files := (files w)(os_path_join directory (filename self) \<mapsto> render self),
                    trace := trace w @ [Write (os_path_join directory (filename self)) (render self)]\<rparr>))"
  by (simp add: write_page_def open_write_def Let_def)

lemma ClassPage_filename:
  "ClassPage ext c lang = Inr page \<Longrightarrow> filename page = classname_to_filename ext (name c)"
  by (auto simp: ClassPage_eq SphinxPage_eq split: sum.splits option.splits if_splits)

lemma class_loop_Inr:
  "class_loop ext lang directory cs indexPage w = (Inr indexPage', w') \<Longrightarrow>
     indexPage' = indexPage\<lparr>tocEntries := tocEntries indexPage @
        map (\<lambda>c. \<lparr>entryName = classname_to_filename ext (name c)\<rparr>) cs\<rparr> \<and>
     (\<forall>c \<in> set cs. \<exists>page. ClassPage ext c lang = Inr page) \<and>
     trace w' = trace w @
        map (\<lambda>c. Write (os_path_join directory (classname_to_filename ext (name c)))
                       (render_class ext (projr (ClassPage ext c lang)))) cs"
proof (induction cs arbitrary: indexPage w)
  case Nil
  then show ?case by simp
next
  case (Cons c cs)
  from Cons.prems obtain page where page: "ClassPage ext c lang = Inr page"
    by (cases "ClassPage ext c lang") auto
  from Cons.prems page obtain w1 where
    w1: "write_page (render_class ext) page directory w = (None, w1)" and
    rest: "class_loop ext lang directory cs (add_class_entry ext indexPage c) w1 = (Inr indexPage', w')"
    by (cases "write_page (render_class ext) page directory w") (auto split: option.splits)
  from w1 have tr: "trace w1 = trace w @
      [Write (os_path_join directory (filename page)) (render_class ext page)]"
    by (auto simp: write_page_eq split: if_splits)
  from Cons.IH[OF rest] page tr ClassPage_filename[OF page] show ?case
    by (simp add: add_class_entry_def)
qed

subsection \<open>A run carries out its requests\<close>

lemma exec_append:
  "exec (as @ bs) w =
     (case exec as w of (Some e, w') \<Rightarrow> (Some e, w') | (None, w') \<Rightarrow> exec bs w')"
  by (induction as w rule: exec.induct) (auto split: prod.splits option.splits)

lemma class_loop_exec:
  "(case class_loop ext lang directory cs indexPage w of
      (Inl e, w') \<Rightarrow> (Some e, w')
    | (Inr indexPage', w') \<Rightarrow> write_page (render_index ext) indexPage' directory w') =
   exec (class_script ext lang directory cs indexPage) w"
proof (induction cs arbitrary: indexPage w)
  case Nil
  show ?case
    by (simp add: write_page_def Let_def split: prod.splits option.splits)
next
  case (Cons c cs)
  show ?case
  proof (cases "ClassPage ext c lang")
    case (Inl e)
    then show ?thesis by simp
  next
    case (Inr page)
    show ?thesis
    proof (cases "write_page (render_class ext) page directory w")
      case (Pair r w1)
      then show ?thesis
        using Inr Cons.IH[of "add_class_entry ext indexPage c" w1]
        by (cases r) (simp_all add: write_page_def Let_def)
    qed
  qed
qed

lemma generate_language_exec:
  "generate_language g ext lang w = exec (language_script g ext lang) w"
proof (cases "get_subdirectory lang")
  case (Inl e)
  then show ?thesis by (simp add: generate_language_def language_script_def)
next
  case sub: (Inr subdirectory)
  define directory where "directory = os_path_join (args_outputdir g) subdirectory"
  obtain r w1 where mk:
    "(if \<not> os_path_exists w directory then os_mkdir directory w else (None, w)) = (r, w1)"
    by (cases "if \<not> os_path_exists w directory then os_mkdir directory w else (None, w)") auto
  show ?thesis
  proof (cases r)
    case (Some e)
    then show ?thesis
      using sub mk
      by (simp add: generate_language_def language_script_def directory_def[symmetric] Let_def)
  next
    case None
    note r = None
    show ?thesis
    proof (cases "EnumsPage ext lang (dict_values (enumsIndex (absApiParser g)))")
      case (Inl e)
      then show ?thesis
        using sub mk r
        by (simp add: generate_language_def language_script_def directory_def[symmetric] Let_def)
    next
      case ep: (Inr enumsPage)
      obtain r2 w2 where wr: "write_page (render_enums ext) enumsPage directory w1 = (r2, w2)"
        by (cases "write_page (render_enums ext) enumsPage directory w1") auto
      show ?thesis
      proof (cases r2)
        case (Some e)
        then show ?thesis
          using sub mk r ep wr
          by (simp add: generate_language_def language_script_def directory_def[symmetric]
              write_page_def Let_def)
      next
        case None
        note r2 = None
        show ?thesis
        proof (cases "IndexPage lang")
          case (Inl e)
          then show ?thesis
            using sub mk r ep wr r2
            by (simp add: generate_language_def language_script_def directory_def[symmetric]
                write_page_def Let_def)
        next
          case ip: (Inr indexPage)
          show ?thesis
            using sub mk r ep wr r2 ip
              class_loop_exec[where ext = ext and lang = lang and directory = directory
                and cs = "dict_values (classesIndex (absApiParser g))"
                and indexPage = indexPage and w = w2]
            by (simp add: generate_language_def language_script_def directory_def[symmetric]
                write_page_def Let_def)
        qed
      qed
    qed
  qed
qed

lemma generate_loop_exec:
  "generate_loop g ext langs w = exec (generate_script g ext langs) w"
  by (induction langs arbitrary: w)
    (auto simp: generate_script_def exec_append generate_language_exec
      split: prod.splits option.splits)

subsection \<open>Running the same requests again\<close>

lemma os_mkdir_None:
  "os_mkdir d w = (None, w') \<Longrightarrow>
     d \<notin> refused w \<and> \<not> os_path_exists w d \<and>
     w' = w\<lparr>directories := insert d (directories w), trace := trace w @ [Mkdir d]\<rparr>"
  by (auto simp: os_mkdir_def split: if_splits)

lemma os_mkdir_Some:
  "os_mkdir d w = (Some e, w') \<Longrightarrow>
     w' = w \<and> e = OSError d \<and> (d \<in> refused w \<or> os_path_exists w d)"
  by (auto simp: os_mkdir_def split: if_splits)

lemma open_write_None:
  "open_write p data w = (None, w') \<Longrightarrow>
     p \<notin> refused w \<and> p \<notin> directories w \<and>
     w' = w\<lparr>files := (files w)(p \<mapsto> data), trace := trace w @ [Write p data]\<rparr>"
  by (auto simp: open_write_def split: if_splits)

lemma open_write_Some:
  "open_write p data w = (Some e, w') \<Longrightarrow>
     w' = w \<and> e = OSError p \<and> (p \<in> refused w \<or> p \<in> directories w)"
  by (auto simp: open_write_def split: if_splits)

text \<open>What a run leaves as it was, and what it can only add to.\<close>

lemma exec_future:
  "exec acts w = (e, w1) \<Longrightarrow>
     refused w1 = refused w \<and> directories w \<subseteq> directories w1 \<and>
     (\<forall>p. files w p \<noteq> None \<longrightarrow> files w1 p \<noteq> None) \<and>
     (\<forall>p \<in> directories w. files w1 p = files w p) \<and>
     (\<forall>p. files w p \<noteq> None \<and> p \<notin> directories w \<longrightarrow> p \<notin> directories w1) \<and>
     (\<exists>t. trace w1 = trace w @ t)"
proof (induction acts arbitrary: w e w1)
  case Nil
  then show ?case by simp
next
  case (Cons a acts)
  show ?case
  proof (cases a)
    case (Ensure d)
    show ?thesis
    proof (cases "os_path_exists w d")
      case True
      with Cons.prems Ensure have "exec acts w = (e, w1)" by simp
      from Cons.IH[OF this] show ?thesis .
    next
      case False
      obtain r wn where mk: "os_mkdir d w = (r, wn)" by (cases "os_mkdir d w") auto
      show ?thesis
      proof (cases r)
        case None
        with mk False Cons.prems Ensure have ex: "exec acts wn = (e, w1)" by simp
        from os_mkdir_None mk None have wn:
          "wn = w\<lparr>directories := insert d (directories w), trace := trace w @ [Mkdir d]\<rparr>"
          by blast
        from Cons.IH[OF ex] wn False show ?thesis
          by (auto simp: os_path_exists_def)
      next
        case (Some err)
        with mk False Cons.prems Ensure os_mkdir_Some[of d w err wn] show ?thesis by auto
      qed
    qed
  next
    case (WriteFile p data)
    obtain r wn where wr: "open_write p data w = (r, wn)" by (cases "open_write p data w") auto
    show ?thesis
    proof (cases r)
      case None
      with wr Cons.prems WriteFile have ex: "exec acts wn = (e, w1)" by simp
      from open_write_None wr None have wn:
        "wn = w\<lparr>files := (files w)(p \<mapsto> data), trace := trace w @ [Write p data]\<rparr>"
        and nd: "p \<notin> directories w"
        by blast+
      from Cons.IH[OF ex] wn nd show ?thesis
        by (auto split: if_splits)
    next
      case (Some err)
      with wr Cons.prems WriteFile open_write_Some[of p data w err wn] show ?thesis by auto
    qed
  next
    case (Raise err)
    with Cons.prems show ?thesis by simp
  qed
qed

lemma written_append: "written (xs @ ys) = written xs @ written ys"
  by (induction xs rule: written.induct) simp_all

text \<open>
  A run from \<open>w\<close> ends in \<open>w1\<close>. A second run of the same requests, from a world \<open>w'\<close>
  that lies between \<open>w\<close> and \<open>w1\<close>, ends the same way, in the same files and
  directories, after the same writes.
\<close>

lemma exec_replay:
  "exec acts w = (e, w1) \<Longrightarrow> refused w' = refused w \<Longrightarrow>
   directories w \<subseteq> directories w' \<Longrightarrow> directories w' \<subseteq> directories w1 \<Longrightarrow>
   (\<And>p. files w' p = files w p \<or> files w' p = files w1 p) \<Longrightarrow>
   \<exists>w1' t t'. exec acts w' = (e, w1') \<and> files w1' = files w1 \<and>
     directories w1' = directories w1 \<and> refused w1' = refused w1 \<and>
     trace w1 = trace w @ t \<and> trace w1' = trace w' @ t' \<and> written t' = written t"
proof (induction acts arbitrary: w w')
  case Nil
  then have "w1 = w" "e = None" by simp_all
  with Nil have "files w' = files w1" "directories w' = directories w1" by auto
  with Nil \<open>w1 = w\<close> \<open>e = None\<close> show ?case by simp
next
  case (Cons a acts)
  note fut = exec_future[OF Cons.prems(1)]
  show ?case
  proof (cases a)
    case (Raise err)
    with Cons.prems(1) have "w1 = w" "e = Some err" by simp_all
    with Cons.prems have "files w' = files w1" "directories w' = directories w1" by auto
    with Cons.prems Raise \<open>w1 = w\<close> \<open>e = Some err\<close> show ?thesis by simp
  next
    case (WriteFile p data)
    obtain r wn where wr: "open_write p data w = (r, wn)" by (cases "open_write p data w") auto
    show ?thesis
    proof (cases r)
      case (Some err)
      with wr open_write_Some[of p data w err wn] Cons.prems(1) WriteFile
      have same: "w1 = w" "e = Some (OSError p)" and bad: "p \<in> refused w \<or> p \<in> directories w"
        by auto
      with Cons.prems have eq: "files w' = files w1" "directories w' = directories w1" by auto
      from bad eq same Cons.prems(2) have "open_write p data w' = (Some (OSError p), w')"
        by (simp add: open_write_def)
      with WriteFile same eq Cons.prems(2) show ?thesis by simp
    next
      case None
      with wr Cons.prems(1) WriteFile have ex: "exec acts wn = (e, w1)" by simp
      from open_write_None wr None have wn:
        "wn = w\<lparr>files := (files w)(p \<mapsto> data), trace := trace w @ [Write p data]\<rparr>"
        and ok: "p \<notin> refused w" "p \<notin> directories w"
        by blast+
      from exec_future[OF ex] wn ok have "p \<notin> directories w1" by auto
      with Cons.prems(4) have nd': "p \<notin> directories w'" by auto
      define wn' where
        "wn' = w'\<lparr>files := (files w')(p \<mapsto> data), trace := trace w' @ [Write p data]\<rparr>"
      from nd' ok Cons.prems(2) have wr': "open_write p data w' = (None, wn')"
        by (simp add: open_write_def wn'_def)
      have "\<exists>w1' t t'. exec acts wn' = (e, w1') \<and> files w1' = files w1 \<and>
          directories w1' = directories w1 \<and> refused w1' = refused w1 \<and>
          trace w1 = trace wn @ t \<and> trace w1' = trace wn' @ t' \<and> written t' = written t"
      proof (rule Cons.IH[OF ex])
        show "refused wn' = refused wn" using Cons.prems(2) by (simp add: wn wn'_def)
        show "directories wn \<subseteq> directories wn'" using Cons.prems(3) by (simp add: wn wn'_def)
        show "directories wn' \<subseteq> directories w1" using Cons.prems(4) by (simp add: wn'_def)
        show "\<And>q. files wn' q = files wn q \<or> files wn' q = files w1 q"
          using Cons.prems(5) by (simp add: wn wn'_def)
      qed
      then obtain w1' t t' where r:
        "exec acts wn' = (e, w1')" "files w1' = files w1" "directories w1' = directories w1"
        "refused w1' = refused w1" "trace w1 = trace wn @ t" "trace w1' = trace wn' @ t'"
        "written t' = written t"
        by blast
      from r wr' WriteFile have "exec (a # acts) w' = (e, w1')" by simp
      moreover from r wn have "trace w1 = trace w @ (Write p data # t)" by simp
      moreover from r have "trace w1' = trace w' @ (Write p data # t')" by (simp add: wn'_def)
      moreover from r have "written (Write p data # t') = written (Write p data # t)" by simp
      ultimately show ?thesis using r(2,3,4) by blast
    qed
  next
    case (Ensure d)
    show ?thesis
    proof (cases "os_path_exists w d")
      case True
      with Cons.prems(1) Ensure have ex: "exec acts w = (e, w1)" by simp
      have "os_path_exists w' d"
      proof (cases "d \<in> directories w")
        case True
        with Cons.prems(3) show ?thesis by (auto simp: os_path_exists_def)
      next
        case False
        with True have "files w d \<noteq> None" by (simp add: os_path_exists_def)
        with fut have "files w1 d \<noteq> None" by blast
        with \<open>files w d \<noteq> None\<close> Cons.prems(5)[of d] show ?thesis
          by (auto simp: os_path_exists_def)
      qed
      then have "exec (a # acts) w' = exec acts w'" using Ensure by simp
      with Cons.IH[OF ex Cons.prems(2) Cons.prems(3) Cons.prems(4) Cons.prems(5)]
      show ?thesis by simp
    next
      case False
      obtain r wn where mk: "os_mkdir d w = (r, wn)" by (cases "os_mkdir d w") auto
      show ?thesis
      proof (cases r)
        case (Some err)
        with mk os_mkdir_Some[of d w err wn] False Cons.prems(1) Ensure
        have same: "w1 = w" "e = Some (OSError d)" and bad: "d \<in> refused w"
          by auto
        with Cons.prems have eq: "files w' = files w1" "directories w' = directories w1" by auto
        from False eq same have "\<not> os_path_exists w' d" by (simp add: os_path_exists_def)
        with bad Cons.prems(2) have "exec (a # acts) w' = (Some (OSError d), w')"
          using Ensure by (simp add: os_mkdir_def)
        with same eq Cons.prems(2) show ?thesis by simp
      next
        case None
        with mk False Cons.prems(1) Ensure have ex: "exec acts wn = (e, w1)" by simp
        from os_mkdir_None mk None have wn:
          "wn = w\<lparr>directories := insert d (directories w), trace := trace w @ [Mkdir d]\<rparr>"
          and ok: "d \<notin> refused w"
          by blast+
        note futn = exec_future[OF ex]
        from futn wn have din: "d \<in> directories w1" by auto
        from futn wn False have fd: "files w1 d = None" by (auto simp: os_path_exists_def)
        show ?thesis
        proof (cases "os_path_exists w' d")
          case True
          have "d \<in> directories w'"
          proof (rule ccontr)
            assume "d \<notin> directories w'"
            with True have "files w' d \<noteq> None" by (simp add: os_path_exists_def)
            with Cons.prems(5)[of d] fd False show False by (auto simp: os_path_exists_def)
          qed
          have "\<exists>w1' t t'. exec acts w' = (e, w1') \<and> files w1' = files w1 \<and>
              directories w1' = directories w1 \<and> refused w1' = refused w1 \<and>
              trace w1 = trace wn @ t \<and> trace w1' = trace w' @ t' \<and> written t' = written t"
          proof (rule Cons.IH[OF ex])
            show "refused w' = refused wn" using Cons.prems(2) by (simp add: wn)
            show "directories wn \<subseteq> directories w'"
              using Cons.prems(3) \<open>d \<in> directories w'\<close> by (simp add: wn)
            show "directories w' \<subseteq> directories w1" by (rule Cons.prems(4))
            show "\<And>q. files w' q = files wn q \<or> files w' q = files w1 q"
              using Cons.prems(5) by (simp add: wn)
          qed
          then obtain w1' t t' where r:
            "exec acts w' = (e, w1')" "files w1' = files w1" "directories w1' = directories w1"
            "refused w1' = refused w1" "trace w1 = trace wn @ t" "trace w1' = trace w' @ t'"
            "written t' = written t"
            by blast
          from r True Ensure have "exec (a # acts) w' = (e, w1')" by simp
          moreover from r wn have "trace w1 = trace w @ (Mkdir d # t)" by simp
          moreover from r have "written t' = written (Mkdir d # t)" by simp
          ultimately show ?thesis using r(2,3,4,6) by blast
        next
          case nex: False
          define wn' where
            "wn' = w'\<lparr>directories := insert d (directories w'), trace := trace w' @ [Mkdir d]\<rparr>"
          from nex ok Cons.prems(2) have mk': "os_mkdir d w' = (None, wn')"
            by (simp add: os_mkdir_def wn'_def)
          have "\<exists>w1' t t'. exec acts wn' = (e, w1') \<and> files w1' = files w1 \<and>
              directories w1' = directories w1 \<and> refused w1' = refused w1 \<and>
              trace w1 = trace wn @ t \<and> trace w1' = trace wn' @ t' \<and> written t' = written t"
          proof (rule Cons.IH[OF ex])
            show "refused wn' = refused wn" using Cons.prems(2) by (simp add: wn wn'_def)
            show "directories wn \<subseteq> directories wn'"
              using Cons.prems(3) by (auto simp: wn wn'_def)
            show "directories wn' \<subseteq> directories w1"
              using Cons.prems(4) din by (simp add: wn'_def)
            show "\<And>q. files wn' q = files wn q \<or> files wn' q = files w1 q"
              using Cons.prems(5) by (simp add: wn wn'_def)
          qed
          then obtain w1' t t' where r:
            "exec acts wn' = (e, w1')" "files w1' = files w1" "directories w1' = directories w1"
            "refused w1' = refused w1" "trace w1 = trace wn @ t" "trace w1' = trace wn' @ t'"
            "written t' = written t"
            by blast
          from r nex mk' Ensure have "exec (a # acts) w' = (e, w1')" by simp
          moreover from r wn have "trace w1 = trace w @ (Mkdir d # t)" by simp
          moreover from r have "trace w1' = trace w' @ (Mkdir d # t')" by (simp add: wn'_def)
          moreover from r have "written (Mkdir d # t') = written (Mkdir d # t)" by simp
          ultimately show ?thesis using r(2,3,4) by blast
        qed
      qed
    qed
  qed
qed

lemma exec_twice:
  assumes "exec acts w = (e, w1)"
  shows "\<exists>w2. exec acts w1 = (e, w2) \<and> files w2 = files w1 \<and>
           directories w2 = directories w1 \<and> refused w2 = refused w1 \<and>
           written (new_events w1 w2) = written (new_events w w1)"
proof -
  note fut = exec_future[OF assms]
  have "\<exists>w1' t t'. exec acts w1 = (e, w1') \<and> files w1' = files w1 \<and>
     directories w1' = directories w1 \<and> refused w1' = refused w1 \<and>
     trace w1 = trace w @ t \<and> trace w1' = trace w1 @ t' \<and> written t' = written t"
    by (rule exec_replay[OF assms]) (use fut in auto)
  then show ?thesis by (auto simp: new_events_def)
qed

subsection \<open>The order of the writes\<close>

lemma written_map_Write:
  "written (map (\<lambda>c. Write (f c) (h c)) cs) = map (\<lambda>c. (f c, h c)) cs"
  by (induction cs) simp_all

lemma write_page_None:
  "write_page render self directory w = (None, w') \<Longrightarrow>
     trace w' = trace w @ [Write (os_path_join directory (filename self)) (render self)]"
  by (auto simp: write_page_eq split: if_splits)

lemma IndexPage_filename: "IndexPage lang = Inr p \<Longrightarrow> filename p = ''index.rst'' \<and> tocEntries p = []"
  by (auto simp: IndexPage_eq SphinxPage_eq split: sum.splits if_splits)

lemma EnumsPage_filename: "EnumsPage ext lang es = Inr p \<Longrightarrow> filename p = ''enums.rst''"
  by (auto simp: EnumsPage_eq SphinxPage_eq split: sum.splits if_splits)

lemma generate_language_None:
  assumes "generate_language g ext lang w = (None, w')"
  shows "\<exists>subdirectory enumsPage indexPage t.
     get_subdirectory lang = Inr subdirectory \<and>
     EnumsPage ext lang (dict_values (enumsIndex (absApiParser g))) = Inr enumsPage \<and>
     IndexPage lang = Inr indexPage \<and>
     (\<forall>c \<in> set (dict_values (classesIndex (absApiParser g))).
        \<exists>page. ClassPage ext c lang = Inr page) \<and>
     trace w' = trace w @ t \<and>
     written t =
       (os_path_join (os_path_join (args_outputdir g) subdirectory) ''enums.rst'',
        render_enums ext enumsPage) #
       map (\<lambda>c. (os_path_join (os_path_join (args_outputdir g) subdirectory)
                   (classname_to_filename ext (name c)),
                 render_class ext (projr (ClassPage ext c lang))))
         (dict_values (classesIndex (absApiParser g))) @
       [(os_path_join (os_path_join (args_outputdir g) subdirectory) ''index.rst'',
         render_index ext
           (indexPage\<lparr>tocEntries :=
              map (\<lambda>c. \<lparr>entryName = classname_to_filename ext (name c)\<rparr>)
                (dict_values (classesIndex (absApiParser g)))\<rparr>))]"
proof -
  from assms obtain subdirectory where sub: "get_subdirectory lang = Inr subdirectory"
    by (cases "get_subdirectory lang") (auto simp: generate_language_def)
  define directory where "directory = os_path_join (args_outputdir g) subdirectory"
  define cs where "cs = dict_values (classesIndex (absApiParser g))"
  obtain r w1 where mk:
    "(if \<not> os_path_exists w directory then os_mkdir directory w else (None, w)) = (r, w1)"
    by (cases "if \<not> os_path_exists w directory then os_mkdir directory w else (None, w)") auto
  from assms sub mk have r: "r = None"
    by (cases r) (auto simp: generate_language_def Let_def directory_def[symmetric])
  from mk r have t1: "\<exists>t. trace w1 = trace w @ t \<and> written t = []"
    by (auto simp: os_mkdir_def split: if_splits)
  from assms sub mk r obtain enumsPage where
    ep: "EnumsPage ext lang (dict_values (enumsIndex (absApiParser g))) = Inr enumsPage"
    by (cases "EnumsPage ext lang (dict_values (enumsIndex (absApiParser g)))")
      (auto simp: generate_language_def Let_def directory_def[symmetric])
  obtain r2 w2 where wr: "write_page (render_enums ext) enumsPage directory w1 = (r2, w2)"
    by (cases "write_page (render_enums ext) enumsPage directory w1") auto
  from assms sub mk r ep wr have r2: "r2 = None"
    by (cases r2) (auto simp: generate_language_def Let_def directory_def[symmetric])
  from assms sub mk r ep wr r2 obtain indexPage where ip: "IndexPage lang = Inr indexPage"
    by (cases "IndexPage lang")
      (auto simp: generate_language_def Let_def directory_def[symmetric])
  obtain r3 w3 where cl: "class_loop ext lang directory cs indexPage w2 = (r3, w3)"
    by (cases "class_loop ext lang directory cs indexPage w2") auto
  from assms sub mk r ep wr r2 ip cl obtain indexPage' where r3: "r3 = Inr indexPage'"
    and wi: "write_page (render_index ext) indexPage' directory w3 = (None, w')"
    by (cases r3)
      (auto simp: generate_language_def Let_def directory_def[symmetric] cs_def[symmetric])
  note loop = class_loop_Inr[OF cl[unfolded r3]]
  from t1 obtain t where t: "trace w1 = trace w @ t" "written t = []" by blast
  have tr: "trace w' = trace w @ (t @
      [Write (os_path_join directory (filename enumsPage)) (render_enums ext enumsPage)] @
      map (\<lambda>c. Write (os_path_join directory (classname_to_filename ext (name c)))
                     (render_class ext (projr (ClassPage ext c lang)))) cs @
      [Write (os_path_join directory (filename indexPage')) (render_index ext indexPage')])"
    using t write_page_None[OF wr[unfolded r2]] loop write_page_None[OF wi] by simp
  have ipf: "filename indexPage' = ''index.rst''" and ipe: "indexPage' = indexPage\<lparr>tocEntries :=
        map (\<lambda>c. \<lparr>entryName = classname_to_filename ext (name c)\<rparr>) cs\<rparr>"
    using loop IndexPage_filename[OF ip] by simp_all
  show ?thesis
    apply (rule exI[of _ subdirectory], rule exI[of _ enumsPage], rule exI[of _ indexPage])
    apply (rule exI[of _ "t @
      [Write (os_path_join directory (filename enumsPage)) (render_enums ext enumsPage)] @
      map (\<lambda>c. Write (os_path_join directory (classname_to_filename ext (name c)))
                     (render_class ext (projr (ClassPage ext c lang)))) cs @
      [Write (os_path_join directory (filename indexPage')) (render_index ext indexPage')]"])
    using sub ep ip loop tr t(2) ipf ipe[symmetric] EnumsPage_filename[OF ep]
    by (simp add: written_append written_map_Write directory_def cs_def)
qed

lemma exec_written_prefix:
  "exec acts w = (e, w1) \<Longrightarrow>
     \<exists>t k. trace w1 = trace w @ t \<and> written t = take k (requested acts) \<and>
       (e = None \<longrightarrow> written t = requested acts)"
proof (induction acts arbitrary: w)
  case Nil
  then show ?case by simp
next
  case (Cons a acts)
  show ?case
  proof (cases a)
    case (Ensure d)
    obtain r wn where mk:
      "(if \<not> os_path_exists w d then os_mkdir d w else (None, w)) = (r, wn)"
      by (cases "if \<not> os_path_exists w d then os_mkdir d w else (None, w)") auto
    show ?thesis
    proof (cases r)
      case None
      with mk Cons.prems Ensure have ex: "exec acts wn = (e, w1)" by simp
      from mk None have "\<exists>t0. trace wn = trace w @ t0 \<and> written t0 = []"
        by (auto simp: os_mkdir_def split: if_splits)
      then obtain t0 where t0: "trace wn = trace w @ t0" "written t0 = []" by blast
      from Cons.IH[OF ex] obtain t k where
        "trace w1 = trace wn @ t" "written t = take k (requested acts)"
        "e = None \<longrightarrow> written t = requested acts"
        by blast
      with t0 Ensure have "trace w1 = trace w @ (t0 @ t) \<and>
          written (t0 @ t) = take k (requested (a # acts)) \<and>
          (e = None \<longrightarrow> written (t0 @ t) = requested (a # acts))"
        by (simp add: written_append)
      then show ?thesis by blast
    next
      case (Some err)
      with mk Cons.prems Ensure have "w1 = w"
        by (auto simp: os_mkdir_def split: if_splits)
      moreover from Some mk Cons.prems Ensure have "e \<noteq> None" by auto
      ultimately have "trace w1 = trace w @ [] \<and> written [] = take 0 (requested (a # acts)) \<and>
          (e = None \<longrightarrow> written [] = requested (a # acts))"
        by auto
      then show ?thesis by blast
    qed
  next
    case (WriteFile p data)
    obtain r wn where wr: "open_write p data w = (r, wn)" by (cases "open_write p data w") auto
    show ?thesis
    proof (cases r)
      case None
      with wr Cons.prems WriteFile have ex: "exec acts wn = (e, w1)" by simp
      from open_write_None wr None have t0: "trace wn = trace w @ [Write p data]" by fastforce
      from Cons.IH[OF ex] obtain t k where
        "trace w1 = trace wn @ t" "written t = take k (requested acts)"
        "e = None \<longrightarrow> written t = requested acts"
        by blast
      with t0 WriteFile have "trace w1 = trace w @ (Write p data # t) \<and>
          written (Write p data # t) = take (Suc k) (requested (a # acts)) \<and>
          (e = None \<longrightarrow> written (Write p data # t) = requested (a # acts))"
        by simp
      then show ?thesis by blast
    next
      case (Some err)
      with wr Cons.prems WriteFile open_write_Some[of p data w err wn]
      have "w1 = w" "e \<noteq> None" by auto
      then have "trace w1 = trace w @ [] \<and> written [] = take 0 (requested (a # acts)) \<and>
          (e = None \<longrightarrow> written [] = requested (a # acts))"
        by auto
      then show ?thesis by blast
    qed
  next
    case (Raise err)
    with Cons.prems have "w1 = w" "e \<noteq> None" by auto
    then have "trace w1 = trace w @ [] \<and> written [] = take 0 (requested (a # acts)) \<and>
        (e = None \<longrightarrow> written [] = requested (a # acts))"
      by auto
    then show ?thesis by blast
  qed
qed

lemma exec_events:
  "exec acts w = (e, w1) \<Longrightarrow>
     \<exists>t. trace w1 = trace w @ t \<and>
       (\<forall>ev \<in> set t. case ev of Mkdir d \<Rightarrow> Ensure d \<in> set acts
                              | Write p data \<Rightarrow> WriteFile p data \<in> set acts)"
proof (induction acts arbitrary: w)
  case Nil
  then show ?case by simp
next
  case (Cons a acts)
  show ?case
  proof (cases a)
    case (Ensure d)
    obtain r wn where mk:
      "(if \<not> os_path_exists w d then os_mkdir d w else (None, w)) = (r, wn)"
      by (cases "if \<not> os_path_exists w d then os_mkdir d w else (None, w)") auto
    show ?thesis
    proof (cases r)
      case None
      with mk Cons.prems Ensure have ex: "exec acts wn = (e, w1)" by simp
      from mk None have "trace wn = trace w \<or> trace wn = trace w @ [Mkdir d]"
        by (auto simp: os_mkdir_def split: if_splits)
      with Cons.IH[OF ex] Ensure show ?thesis
        by (auto split: io_event.splits)
    next
      case (Some err)
      with mk Cons.prems Ensure have "w1 = w"
        by (auto simp: os_mkdir_def split: if_splits)
      then show ?thesis by simp
    qed
  next
    case (WriteFile p data)
    obtain r wn where wr: "open_write p data w = (r, wn)" by (cases "open_write p data w") auto
    show ?thesis
    proof (cases r)
      case None
      with wr Cons.prems WriteFile have ex: "exec acts wn = (e, w1)" by simp
      from open_write_None wr None have t0: "trace wn = trace w @ [Write p data]" by fastforce
      with Cons.IH[OF ex] WriteFile show ?thesis
        by (auto split: io_event.splits)
    next
      case (Some err)
      with wr Cons.prems WriteFile open_write_Some[of p data w err wn]
      have "w1 = w" by auto
      then show ?thesis by simp
    qed
  next
    case (Raise err)
    with Cons.prems have "w1 = w" by auto
    then show ?thesis by simp
  qed
qed

lemma class_script_actions:
  "a \<in> set (class_script ext lang directory cs indexPage) \<Longrightarrow>
     (case a of Ensure d \<Rightarrow> False
              | WriteFile p data \<Rightarrow> \<exists>fn. p = os_path_join directory fn
              | Raise e \<Rightarrow> True)"
  by (induction cs arbitrary: indexPage) (auto split: sum.splits action.splits)

lemma language_script_actions:
  "a \<in> set (language_script g ext lang) \<Longrightarrow>
     (case a of
        Ensure d \<Rightarrow> \<exists>sub. get_subdirectory lang = Inr sub \<and> d = os_path_join (args_outputdir g) sub
      | WriteFile p data \<Rightarrow>
          \<exists>sub fn. get_subdirectory lang = Inr sub \<and>
            p = os_path_join (os_path_join (args_outputdir g) sub) fn
      | Raise e \<Rightarrow> True)"
  by (cases "get_subdirectory lang")
    (auto simp: language_script_def Let_def split: sum.splits action.splits
      dest!: class_script_actions)

subsection \<open>The two languages of a generator\<close>

lemma generate_DocGenerator:
  "generate g ext (DocGenerator a) outputdir w =
     (case generate_language g ext ''C'' w of
        (Some e, w1) \<Rightarrow> (Some e, w1)
      | (None, w1) \<Rightarrow> generate_language g ext ''C++'' w1)"
  by (auto simp: generate_def DocGenerator_def split: prod.splits option.splits)

lemma get_subdirectory_C: "get_subdirectory ''C'' = Inr ''c''"
  by (simp add: get_subdirectory_eq lower_eq_c)

lemma get_subdirectory_Cpp: "get_subdirectory ''C++'' = Inr ''cpp''"
  by (simp add: get_subdirectory_eq lower_eq_c lower_eq_cpp)

lemma generate_events:
  assumes "generate g ext (DocGenerator a) outputdir w = (e, w')"
  shows "\<forall>ev \<in> set (new_events w w').
     case ev of
       Mkdir d \<Rightarrow> d = os_path_join (args_outputdir g) ''c'' \<or>
                  d = os_path_join (args_outputdir g) ''cpp''
     | Write p data \<Rightarrow>
         \<exists>fn. p = os_path_join (os_path_join (args_outputdir g) ''c'') fn \<or>
              p = os_path_join (os_path_join (args_outputdir g) ''cpp'') fn"
proof -
  from assms have ex: "exec (generate_script g ext [''C'', ''C++'']) w = (e, w')"
    by (simp add: generate_def DocGenerator_def generate_loop_exec)
  from exec_events[OF ex] obtain t where t: "trace w' = trace w @ t"
    and ev: "\<forall>ev \<in> set t. case ev of
        Mkdir d \<Rightarrow> Ensure d \<in> set (generate_script g ext [''C'', ''C++''])
      | Write p data \<Rightarrow> WriteFile p data \<in> set (generate_script g ext [''C'', ''C++''])"
    by blast
  have acts: "\<And>a. a \<in> set (generate_script g ext [''C'', ''C++'']) \<Longrightarrow>
     (case a of
        Ensure d \<Rightarrow> d = os_path_join (args_outputdir g) ''c'' \<or>
                   d = os_path_join (args_outputdir g) ''cpp''
      | WriteFile p data \<Rightarrow>
          \<exists>fn. p = os_path_join (os_path_join (args_outputdir g) ''c'') fn \<or>
               p = os_path_join (os_path_join (args_outputdir g) ''cpp'') fn
      | Raise e \<Rightarrow> True)"
  proof -
    fix a assume "a \<in> set (generate_script g ext [''C'', ''C++''])"
    then have "a \<in> set (language_script g ext ''C'') \<or> a \<in> set (language_script g ext ''C++'')"
      by (simp add: generate_script_def)
    then show "(case a of
        Ensure d \<Rightarrow> d = os_path_join (args_outputdir g) ''c'' \<or>
                   d = os_path_join (args_outputdir g) ''cpp''
      | WriteFile p data \<Rightarrow>
          \<exists>fn. p = os_path_join (os_path_join (args_outputdir g) ''c'') fn \<or>
               p = os_path_join (os_path_join (args_outputdir g) ''cpp'') fn
      | Raise e \<Rightarrow> True)"
      using language_script_actions[of a g ext "''C''"] language_script_actions[of a g ext "''C++''"]
      by (auto simp: get_subdirectory_C get_subdirectory_Cpp split: action.splits)
  qed
  show ?thesis
  proof
    fix ev assume "ev \<in> set (new_events w w')"
    with t have m: "ev \<in> set t" by (simp add: new_events_def)
    show "case ev of
       Mkdir d \<Rightarrow> d = os_path_join (args_outputdir g) ''c'' \<or>
                  d = os_path_join (args_outputdir g) ''cpp''
     | Write p data \<Rightarrow>
         \<exists>fn. p = os_path_join (os_path_join (args_outputdir g) ''c'') fn \<or>
              p = os_path_join (os_path_join (args_outputdir g) ''cpp'') fn"
    proof (cases ev)
      case (Mkdir d)
      with ev m have "Ensure d \<in> set (generate_script g ext [''C'', ''C++''])" by force
      from acts[OF this] Mkdir show ?thesis by simp
    next
      case (Write p data)
      with ev m have "WriteFile p data \<in> set (generate_script g ext [''C'', ''C++''])" by force
      from acts[OF this] Write show ?thesis by simp
    qed
  qed
qed

lemma generate_None_paths:
  assumes "generate g ext (DocGenerator a) outputdir w = (None, w')"
  shows "map fst (written (new_events w w')) =
     (os_path_join (os_path_join (args_outputdir g) ''c'') ''enums.rst'' #
      map (\<lambda>c. os_path_join (os_path_join (args_outputdir g) ''c'')
                 (classname_to_filename ext (name c)))
        (dict_values (classesIndex (absApiParser g))) @
      [os_path_join (os_path_join (args_outputdir g) ''c'') ''index.rst'']) @
     (os_path_join (os_path_join (args_outputdir g) ''cpp'') ''enums.rst'' #
      map (\<lambda>c. os_path_join (os_path_join (args_outputdir g) ''cpp'')
                 (classname_to_filename ext (name c)))
        (dict_values (classesIndex (absApiParser g))) @
      [os_path_join (os_path_join (args_outputdir g) ''cpp'') ''index.rst''])"
proof -
  from assms obtain w1 where c: "generate_language g ext ''C'' w = (None, w1)"
    and cpp: "generate_language g ext ''C++'' w1 = (None, w')"
    by (auto simp: generate_DocGenerator split: prod.splits option.splits)
  from generate_language_None[OF c] obtain t1 where
    t1: "trace w1 = trace w @ t1" and
    w1: "map fst (written t1) =
      os_path_join (os_path_join (args_outputdir g) ''c'') ''enums.rst'' #
      map (\<lambda>c. os_path_join (os_path_join (args_outputdir g) ''c'')
                 (classname_to_filename ext (name c)))
        (dict_values (classesIndex (absApiParser g))) @
      [os_path_join (os_path_join (args_outputdir g) ''c'') ''index.rst'']"
    by (auto simp: get_subdirectory_C comp_def)
  from generate_language_None[OF cpp] obtain t2 where
    t2: "trace w' = trace w1 @ t2" and
    w2: "map fst (written t2) =
      os_path_join (os_path_join (args_outputdir g) ''cpp'') ''enums.rst'' #
      map (\<lambda>c. os_path_join (os_path_join (args_outputdir g) ''cpp'')
                 (classname_to_filename ext (name c)))
        (dict_values (classesIndex (absApiParser g))) @
      [os_path_join (os_path_join (args_outputdir g) ''cpp'') ''index.rst'']"
    by (auto simp: get_subdirectory_Cpp comp_def)
  from t1 t2 have "new_events w w' = t1 @ t2" by (simp add: new_events_def)
  with w1 w2 show ?thesis by (simp add: written_append)
qed

subsection \<open>Lowercase strings\<close>

lemma lower_char_idem: "lower_char (lower_char c) = lower_char c"
  unfolding lower_char_eq_iff[of "lower_char c"] of_char_lower_char by auto

lemma lower_idem: "lower (lower s) = lower s"
  by (simp add: lower_def lower_char_idem)

lemma lower_append: "lower (a @ b) = lower a @ lower b"
  by (simp add: lower_def)

lemma lower_join: "lower (join sep xs) = join (lower sep) (map lower xs)"
  by (induction sep xs rule: join.induct) (simp_all add: lower_append, simp add: lower_def)

lemma lower_underscore: "lower ''_'' = ''_''"
  by code_simp

lemma lower_rst: "lower ''.rst'' = ''.rst''"
  by code_simp

lemma DocGenerator_languages_supported:
  "lang \<in> set (languages (DocGenerator a)) \<Longrightarrow> lower lang = ''c'' \<or> lower lang = ''c++''"
  by (auto simp: DocGenerator_def lower_eq_c lower_eq_cpp)

subsection \<open>The writes of a run, written out\<close>

lemma init_translation_info_C:
  "init_translation_info ''C'' = Inr (CTranslator, CLangTranslator, SphinxTranslator CTranslator)"
  by (simp add: init_translation_info_def lower_eq_c)

lemma init_translation_info_Cpp:
  "init_translation_info ''C++'' =
     Inr (CppTranslator, CppLangTranslator, SphinxTranslator CppTranslator)"
  by (simp add: init_translation_info_def lower_eq_c lower_eq_cpp)

lemma SphinxPage_init:
  "init_translation_info lang = Inr (nt, lt, dt) \<Longrightarrow>
     SphinxPage lang f =
       Inr \<lparr>language = lang, nameTranslator = nt, langTranslator = lt, docTranslator = dt,
            filename = f\<rparr>"
  by (simp add: SphinxPage_def)

lemma translate_enum_values_map:
  "translate_enum_values ext self enum =
     map (\<lambda>e. \<lparr>value_name = translate_name ext (nameTranslator self) False (name e),
               value_briefDesc = translate_doc ext (docTranslator self) (briefDescription e),
               value_value = translate_value ext (langTranslator self) e\<rparr>) (enumerators enum)"
  by (simp add: translate_enum_values_def translate_enum_values_loop_map)

lemma EnumsPage_init:
  "init_translation_info lang = Inr (nt, lt, dt) \<Longrightarrow>
     EnumsPage ext lang es =
       Inr \<lparr>language = lang, nameTranslator = nt, langTranslator = lt, docTranslator = dt,
            filename = ''enums.rst'',
            enums = map (\<lambda>enum.
              \<lparr>enum_name = translate_name ext nt False (name enum),
               enum_fullName = translate_name ext nt True (name enum),
               enum_briefDesc = translate_doc ext dt (briefDescription enum),
               enum_enumerators = map (\<lambda>e.
                 \<lparr>value_name = translate_name ext nt False (name e),
                  value_briefDesc = translate_doc ext dt (briefDescription e),
                  value_value = translate_value ext lt e\<rparr>) (enumerators enum),
               enum_sectionName = make_section (translate_name ext nt False (name enum)) ''='' False\<rparr>)
              es\<rparr>"
  by (simp add: EnumsPage_eq SphinxPage_init translate_enums_def translate_enums_loop_map
      translate_enum_values_map)

lemma IndexPage_init:
  "init_translation_info lang = Inr (nt, lt, dt) \<Longrightarrow>
     IndexPage lang =
       Inr \<lparr>language = lang, nameTranslator = nt, langTranslator = lt, docTranslator = dt,
            filename = ''index.rst'', tocEntries = []\<rparr>"
  by (simp add: IndexPage_eq SphinxPage_init)

lemma class_script_requested:
  "(\<exists>m. requested (class_script ext lang directory cs indexPage) =
      take m (map (\<lambda>c. (os_path_join directory (classname_to_filename ext (name c)),
                         render_class ext (projr (ClassPage ext c lang)))) cs @
              [(os_path_join directory (filename indexPage),
                render_index ext (indexPage\<lparr>tocEntries := tocEntries indexPage @
                  map (\<lambda>c. \<lparr>entryName = classname_to_filename ext (name c)\<rparr>) cs\<rparr>))])) \<and>
   ((\<forall>c \<in> set cs. \<exists>page. ClassPage ext c lang = Inr page) \<longrightarrow>
    requested (class_script ext lang directory cs indexPage) =
      map (\<lambda>c. (os_path_join directory (classname_to_filename ext (name c)),
                 render_class ext (projr (ClassPage ext c lang)))) cs @
      [(os_path_join directory (filename indexPage),
        render_index ext (indexPage\<lparr>tocEntries := tocEntries indexPage @
          map (\<lambda>c. \<lparr>entryName = classname_to_filename ext (name c)\<rparr>) cs\<rparr>))])"
proof (induction cs arbitrary: indexPage)
  case Nil
  have "requested (class_script ext lang directory [] indexPage) =
      take 1 [(os_path_join directory (filename indexPage), render_index ext indexPage)]"
    by simp
  then show ?case by (auto intro: exI[of _ 1])
next
  case (Cons c cs)
  let ?full = "\<lambda>cs indexPage.
      map (\<lambda>c. (os_path_join directory (classname_to_filename ext (name c)),
                 render_class ext (projr (ClassPage ext c lang)))) cs @
      [(os_path_join directory (filename indexPage),
        render_index ext (indexPage\<lparr>tocEntries := tocEntries indexPage @
          map (\<lambda>c. \<lparr>entryName = classname_to_filename ext (name c)\<rparr>) cs\<rparr>))]"
  show ?case
  proof (cases "ClassPage ext c lang")
    case (Inl e)
    then have "requested (class_script ext lang directory (c # cs) indexPage) =
        take 0 (?full (c # cs) indexPage)"
      by simp
    with Inl show ?thesis by (auto simp del: take_eq_Nil intro: exI[of _ 0])
  next
    case (Inr page)
    note IH = Cons.IH[of "add_class_entry ext indexPage c"]
    have full: "?full (c # cs) indexPage =
        (os_path_join directory (filename page), render_class ext page) #
        ?full cs (add_class_entry ext indexPage c)"
      using Inr ClassPage_filename[OF Inr] by (simp add: add_class_entry_def)
    have req: "requested (class_script ext lang directory (c # cs) indexPage) =
        (os_path_join directory (filename page), render_class ext page) #
        requested (class_script ext lang directory cs (add_class_entry ext indexPage c))"
      using Inr by simp
    from IH obtain m where m:
      "requested (class_script ext lang directory cs (add_class_entry ext indexPage c)) =
         take m (?full cs (add_class_entry ext indexPage c))"
      by blast
    have a: "requested (class_script ext lang directory (c # cs) indexPage) =
        take (Suc m) (?full (c # cs) indexPage)"
      unfolding req full m by simp
    have b: "(\<forall>c \<in> set (c # cs). \<exists>page. ClassPage ext c lang = Inr page) \<longrightarrow>
        requested (class_script ext lang directory (c # cs) indexPage) = ?full (c # cs) indexPage"
      using IH unfolding req full by simp
    from a b show ?thesis by blast
  qed
qed

lemma language_script_requested:
  assumes init: "init_translation_info lang = Inr (nt, lt, dt)"
    and sub: "get_subdirectory lang = Inr sub"
  shows "(\<exists>m. requested (language_script g ext lang) =
            take m (language_pages g ext lang sub nt lt dt)) \<and>
         ((\<forall>c \<in> set (dict_values (classesIndex (absApiParser g))).
             \<exists>page. ClassPage ext c lang = Inr page) \<longrightarrow>
          requested (language_script g ext lang) = language_pages g ext lang sub nt lt dt)"
proof -
  define directory where "directory = os_path_join (args_outputdir g) sub"
  define cs where "cs = dict_values (classesIndex (absApiParser g))"
  define ip where "ip = \<lparr>language = lang, nameTranslator = nt, langTranslator = lt,
      docTranslator = dt, filename = ''index.rst'', tocEntries = []\<rparr>"
  note cl = class_script_requested[of ext lang directory cs ip]
  have req: "requested (language_script g ext lang) =
      hd (language_pages g ext lang sub nt lt dt) #
      requested (class_script ext lang directory cs ip)"
    using sub
    by (simp add: language_script_def Let_def EnumsPage_init[OF init] IndexPage_init[OF init]
        language_pages_def directory_def cs_def ip_def)
  have pg: "language_pages g ext lang sub nt lt dt =
      hd (language_pages g ext lang sub nt lt dt) #
      (map (\<lambda>c. (os_path_join directory (classname_to_filename ext (name c)),
                 render_class ext (projr (ClassPage ext c lang)))) cs @
       [(os_path_join directory (filename ip),
         render_index ext (ip\<lparr>tocEntries := tocEntries ip @
           map (\<lambda>c. \<lparr>entryName = classname_to_filename ext (name c)\<rparr>) cs\<rparr>))])"
    by (simp add: language_pages_def directory_def cs_def ip_def)
  from cl obtain m where m: "requested (class_script ext lang directory cs ip) =
      take m (map (\<lambda>c. (os_path_join directory (classname_to_filename ext (name c)),
                         render_class ext (projr (ClassPage ext c lang)))) cs @
              [(os_path_join directory (filename ip),
                render_index ext (ip\<lparr>tocEntries := tocEntries ip @
                  map (\<lambda>c. \<lparr>entryName = classname_to_filename ext (name c)\<rparr>) cs\<rparr>))])"
    by blast
  have a: "requested (language_script g ext lang) =
      take (Suc m) (language_pages g ext lang sub nt lt dt)"
    by (subst pg) (simp add: req m)
  have b: "(\<forall>c \<in> set cs. \<exists>page. ClassPage ext c lang = Inr page) \<longrightarrow>
      requested (language_script g ext lang) = language_pages g ext lang sub nt lt dt"
    using cl by (subst pg) (simp add: req)
  from a b show ?thesis unfolding cs_def by blast
qed

lemma generate_language_written:
  assumes init: "init_translation_info lang = Inr (nt, lt, dt)"
    and sub: "get_subdirectory lang = Inr sub"
    and run: "generate_language g ext lang w = (e, w')"
  shows "\<exists>t k. trace w' = trace w @ t \<and>
           written t = take k (language_pages g ext lang sub nt lt dt) \<and>
           (e = None \<longrightarrow> written t = language_pages g ext lang sub nt lt dt)"
proof -
  from run have ex: "exec (language_script g ext lang) w = (e, w')"
    by (simp add: generate_language_exec)
  from exec_written_prefix[OF ex] obtain t k where
    t: "trace w' = trace w @ t" and
    k: "written t = take k (requested (language_script g ext lang))" and
    n: "e = None \<longrightarrow> written t = requested (language_script g ext lang)"
    by blast
  note ls = language_script_requested[OF init sub, of g ext]
  from ls obtain m where m: "requested (language_script g ext lang) =
      take m (language_pages g ext lang sub nt lt dt)"
    by blast
  have a: "written t = take (min k m) (language_pages g ext lang sub nt lt dt)"
    by (simp add: k m)
  have b: "e = None \<longrightarrow> written t = language_pages g ext lang sub nt lt dt"
  proof
    assume e: "e = None"
    with run sub generate_language_None[of g ext lang w w'] have
      "\<forall>c \<in> set (dict_values (classesIndex (absApiParser g))).
         \<exists>page. ClassPage ext c lang = Inr page"
      by auto
    with ls n e show "written t = language_pages g ext lang sub nt lt dt" by simp
  qed
  from t a b show ?thesis by blast
qed

lemma generate_written:
  assumes run: "generate g ext (DocGenerator a) outputdir w = (e, w')"
  shows "\<exists>k. written (new_events w w') =
           take k (language_pages g ext ''C'' ''c'' CTranslator CLangTranslator
                     (SphinxTranslator CTranslator) @
                   language_pages g ext ''C++'' ''cpp'' CppTranslator CppLangTranslator
                     (SphinxTranslator CppTranslator)) \<and>
           (e = None \<longrightarrow> written (new_events w w') =
              language_pages g ext ''C'' ''c'' CTranslator CLangTranslator
                (SphinxTranslator CTranslator) @
              language_pages g ext ''C++'' ''cpp'' CppTranslator CppLangTranslator
                (SphinxTranslator CppTranslator))"
proof -
  let ?PC = "language_pages g ext ''C'' ''c'' CTranslator CLangTranslator
      (SphinxTranslator CTranslator)"
  let ?PP = "language_pages g ext ''C++'' ''cpp'' CppTranslator CppLangTranslator
      (SphinxTranslator CppTranslator)"
  obtain r1 w1 where c: "generate_language g ext ''C'' w = (r1, w1)"
    by (cases "generate_language g ext ''C'' w") auto
  from generate_language_written[OF init_translation_info_C get_subdirectory_C c]
  obtain t1 k1 where t1: "trace w1 = trace w @ t1" and k1: "written t1 = take k1 ?PC"
    and n1: "r1 = None \<longrightarrow> written t1 = ?PC"
    by blast
  show ?thesis
  proof (cases r1)
    case (Some err)
    with run c have "e = Some err" "w' = w1" by (simp_all add: generate_DocGenerator)
    with t1 k1 have "written (new_events w w') = take (min k1 (length ?PC)) (?PC @ ?PP)"
      by (simp add: new_events_def min_def)
    with \<open>e = Some err\<close> show ?thesis by blast
  next
    case None
    with run c have cpp: "generate_language g ext ''C++'' w1 = (e, w')"
      by (simp add: generate_DocGenerator)
    from generate_language_written[OF init_translation_info_Cpp get_subdirectory_Cpp cpp]
    obtain t2 k2 where t2: "trace w' = trace w1 @ t2" and k2: "written t2 = take k2 ?PP"
      and n2: "e = None \<longrightarrow> written t2 = ?PP"
      by blast
    from None n1 have f1: "written t1 = ?PC" by simp
    from t1 t2 have ne: "new_events w w' = t1 @ t2" by (simp add: new_events_def)
    have "written (new_events w w') = take (length ?PC + k2) (?PC @ ?PP)"
      by (simp add: ne written_append f1 k2)
    moreover have "e = None \<longrightarrow> written (new_events w w') = ?PC @ ?PP"
      using n2 by (simp add: ne written_append f1)
    ultimately show ?thesis by blast
  qed
qed

subsection \<open>Two runs with the same translations\<close>

lemma same_translation_refl: "same_translation g langs ext ext"
  by (auto simp: same_translation_def same_name_def same_doc_def split: sum.splits)

lemma same_nameD:
  "same_name ext ext' n \<Longrightarrow> translate_name ext' t r n = translate_name ext t r n"
  by (cases t; cases r) (simp_all add: same_name_def)

lemma same_docD: "same_doc ext ext' d \<Longrightarrow> translate_doc ext' t d = translate_doc ext t d"
proof (cases t)
  case (SphinxTranslator nt)
  assume "same_doc ext ext' d"
  then show ?thesis unfolding SphinxTranslator by (cases nt) (simp_all add: same_doc_def)
qed

lemma same_EnumsPage:
  assumes "same_translation g langs ext ext'"
  shows "EnumsPage ext' lang (dict_values (enumsIndex (absApiParser g))) =
         EnumsPage ext lang (dict_values (enumsIndex (absApiParser g)))"
proof -
  have tv: "\<And>lt e enum. enum \<in> set (dict_values (enumsIndex (absApiParser g))) \<Longrightarrow>
      e \<in> set (enumerators enum) \<Longrightarrow> translate_value ext' lt e = translate_value ext lt e"
  proof -
    fix lt :: lang_translator and e enum
    assume "enum \<in> set (dict_values (enumsIndex (absApiParser g)))" "e \<in> set (enumerators enum)"
    with assms show "translate_value ext' lt e = translate_value ext lt e"
      by (cases lt) (auto simp: same_translation_def)
  qed
  have ev: "\<And>self enum. enum \<in> set (dict_values (enumsIndex (absApiParser g))) \<Longrightarrow>
      translate_enum_values ext' self enum = translate_enum_values ext self enum"
    using assms tv
    by (auto simp: translate_enum_values_map same_translation_def same_nameD same_docD)
  have "\<And>self. translate_enums ext' self (dict_values (enumsIndex (absApiParser g))) =
      translate_enums ext self (dict_values (enumsIndex (absApiParser g)))"
    using assms ev
    by (auto simp: translate_enums_def translate_enums_loop_map same_translation_def
        same_nameD same_docD)
  then show ?thesis by (simp add: EnumsPage_eq split: sum.splits)
qed

lemma same_classname_to_filename:
  "same_translation g langs ext ext' \<Longrightarrow> c \<in> set (dict_values (classesIndex (absApiParser g))) \<Longrightarrow>
     classname_to_filename ext' (name c) = classname_to_filename ext (name c)"
  by (simp add: same_translation_def classname_to_filename_def)

lemma same_ClassPage:
  assumes st: "same_translation g langs ext ext'"
    and c: "c \<in> set (dict_values (classesIndex (absApiParser g)))"
  shows "ClassPage ext' c lang = ClassPage ext c lang"
proof -
  have ap: "\<And>lt m. m \<in> set (instanceMethods c @ classMethods c) \<Longrightarrow>
      translate_as_prototype ext' lt m = translate_as_prototype ext lt m"
  proof -
    fix lt :: lang_translator and m
    assume "m \<in> set (instanceMethods c @ classMethods c)"
    with st c show "translate_as_prototype ext' lt m = translate_as_prototype ext lt m"
      by (cases lt) (auto simp: same_translation_def)
  qed
  have md: "\<And>m. m \<in> set (instanceMethods c @ classMethods c) \<Longrightarrow>
      same_doc ext ext' (briefDescription m)"
    using st c by (auto simp: same_translation_def)
  have tm: "\<And>self. translate_methods ext' self (instanceMethods c) =
        translate_methods ext self (instanceMethods c)"
      "\<And>self. translate_methods ext' self (classMethods c) =
        translate_methods ext self (classMethods c)"
    using ap md by (auto simp: translate_methods_def translate_methods_loop_map same_docD)
  have ff: "find_first_ancestor_by_type ext' c = find_first_ancestor_by_type ext c"
    and nm: "same_name ext ext' (name c)" and dc: "same_doc ext ext' (briefDescription c)"
    and ns: "\<And>ns. find_first_ancestor_by_type ext c = Some ns \<Longrightarrow> same_name ext ext' (name ns)"
    using st c by (auto simp: same_translation_def)
  show ?thesis
    using same_classname_to_filename[OF st c] ff tm ns
    by (auto simp: ClassPage_eq same_nameD[OF nm] same_docD[OF dc] same_nameD
        split: sum.splits option.splits)
qed

lemma same_class_script:
  assumes st: "same_translation g langs ext ext'"
    and rc: "\<forall>c \<in> set (dict_values (classesIndex (absApiParser g))).
        case ClassPage ext c lang of
          Inl e \<Rightarrow> True
        | Inr page \<Rightarrow> render_class ext' page = render_class ext page"
  shows "set cs \<subseteq> set (dict_values (classesIndex (absApiParser g))) \<Longrightarrow>
     ((\<forall>c \<in> set cs. \<exists>page. ClassPage ext c lang = Inr page) \<longrightarrow>
        render_index ext' (indexPage\<lparr>tocEntries := tocEntries indexPage @
            map (\<lambda>c. \<lparr>entryName = classname_to_filename ext (name c)\<rparr>) cs\<rparr>) =
        render_index ext (indexPage\<lparr>tocEntries := tocEntries indexPage @
            map (\<lambda>c. \<lparr>entryName = classname_to_filename ext (name c)\<rparr>) cs\<rparr>)) \<Longrightarrow>
     class_script ext' lang directory cs indexPage = class_script ext lang directory cs indexPage"
proof (induction cs arbitrary: indexPage)
  case Nil
  then show ?case by simp
next
  case (Cons c cs)
  from Cons.prems(1) have c: "c \<in> set (dict_values (classesIndex (absApiParser g)))"
    and sub: "set cs \<subseteq> set (dict_values (classesIndex (absApiParser g)))"
    by auto
  note cp = same_ClassPage[OF st c, of lang]
  show ?case
  proof (cases "ClassPage ext c lang")
    case (Inl e)
    with cp show ?thesis by simp
  next
    case (Inr page)
    from rc c Inr have rp: "render_class ext' page = render_class ext page" by force
    have ae: "add_class_entry ext' indexPage c = add_class_entry ext indexPage c"
      by (simp add: add_class_entry_def same_classname_to_filename[OF st c])
    have "class_script ext' lang directory cs (add_class_entry ext indexPage c) =
        class_script ext lang directory cs (add_class_entry ext indexPage c)"
    proof (rule Cons.IH[OF sub])
      show "(\<forall>c \<in> set cs. \<exists>page. ClassPage ext c lang = Inr page) \<longrightarrow>
          render_index ext' (add_class_entry ext indexPage c
            \<lparr>tocEntries := tocEntries (add_class_entry ext indexPage c) @
              map (\<lambda>c. \<lparr>entryName = classname_to_filename ext (name c)\<rparr>) cs\<rparr>) =
          render_index ext (add_class_entry ext indexPage c
            \<lparr>tocEntries := tocEntries (add_class_entry ext indexPage c) @
              map (\<lambda>c. \<lparr>entryName = classname_to_filename ext (name c)\<rparr>) cs\<rparr>)"
        using Cons.prems(2) Inr by (simp add: add_class_entry_def)
    qed
    with cp Inr rp ae show ?thesis by simp
  qed
qed

lemma same_language_script:
  assumes st: "same_translation g langs ext ext'" and lang: "lang \<in> set langs"
  shows "language_script g ext' lang = language_script g ext lang"
proof (cases "get_subdirectory lang")
  case (Inl e)
  then show ?thesis by (simp add: language_script_def)
next
  case sub: (Inr subdirectory)
  note ep = same_EnumsPage[OF st, of lang]
  show ?thesis
  proof (cases "EnumsPage ext lang (dict_values (enumsIndex (absApiParser g)))")
    case (Inl e)
    with ep sub show ?thesis by (simp add: language_script_def)
  next
    case enums: (Inr enumsPage)
    from st lang enums have re: "render_enums ext' enumsPage = render_enums ext enumsPage"
      by (force simp: same_translation_def)
    show ?thesis
    proof (cases "IndexPage lang")
      case (Inl e)
      with ep sub enums re show ?thesis by (simp add: language_script_def)
    next
      case ip: (Inr indexPage)
      from st lang have rc: "\<forall>c \<in> set (dict_values (classesIndex (absApiParser g))).
          case ClassPage ext c lang of
            Inl e \<Rightarrow> True
          | Inr page \<Rightarrow> render_class ext' page = render_class ext page"
        by (simp add: same_translation_def)
      from st lang ip have ri:
        "render_index ext'
           (indexPage\<lparr>tocEntries := tocEntries indexPage @
              map (\<lambda>c. \<lparr>entryName = classname_to_filename ext (name c)\<rparr>)
                (dict_values (classesIndex (absApiParser g)))\<rparr>) =
         render_index ext
           (indexPage\<lparr>tocEntries := tocEntries indexPage @
              map (\<lambda>c. \<lparr>entryName = classname_to_filename ext (name c)\<rparr>)
                (dict_values (classesIndex (absApiParser g)))\<rparr>)"
        using IndexPage_filename[OF ip] by (force simp: same_translation_def)
      have "class_script ext' lang (os_path_join (args_outputdir g) subdirectory)
            (dict_values (classesIndex (absApiParser g))) indexPage =
          class_script ext lang (os_path_join (args_outputdir g) subdirectory)
            (dict_values (classesIndex (absApiParser g))) indexPage"
        by (rule same_class_script[OF st rc]) (use ri in simp_all)
      with ep sub enums re ip show ?thesis by (simp add: language_script_def Let_def)
    qed
  qed
qed

lemma same_generate_script:
  "same_translation g langs ext ext' \<Longrightarrow>
     generate_script g ext' langs = generate_script g ext langs"
  using same_language_script[of g langs ext ext']
  by (simp add: generate_script_def cong: map_cong)

section \<open>The example project\<close>

lemma ex_ClassPage_C:
  "ClassPage ex_ext ex_class ''C'' =
     Inr \<lparr>language = ''C'', nameTranslator = CTranslator, langTranslator = CLangTranslator,
          docTranslator = SphinxTranslator CTranslator,
          filename = classname_to_filename ex_ext (name ex_class),
          namespace = ''c:Foo'', className = ''c:BarBaz'', fullClassName = ''c:Foo.BarBaz'',
          classBrief = ''A class.'',
          methods = [\<lparr>prototype = ''c:doThing()'', brief = ''Brief.''\<rparr>],
          page_classMethods = []\<rparr>"
  by (simp add: ClassPage_eq SphinxPage_eq lower_eq_c ex_ext_def ex_class_def ex_method_def
      translate_methods_def)

lemma ex_ClassPage_util_C:
  "ClassPage ex_ext ex_util ''C'' =
     Inr \<lparr>language = ''C'', nameTranslator = CTranslator, langTranslator = CLangTranslator,
          docTranslator = SphinxTranslator CTranslator,
          filename = classname_to_filename ex_ext (name ex_util),
          namespace = ''c:Foo'', className = ''c:Util'', fullClassName = ''c:Foo.Util'',
          classBrief = ''Helpers.'',
          methods = [],
          page_classMethods = [\<lparr>prototype = ''c:create()'', brief = ''Brief.''\<rparr>,
                               \<lparr>prototype = ''c:version()'', brief = ''Brief.''\<rparr>]\<rparr>"
  by (simp add: ClassPage_eq SphinxPage_eq lower_eq_c ex_ext_def ex_util_def ex_method_def
      translate_methods_def)

lemma lower_Java: "lower ''Java'' \<noteq> ''c'' \<and> lower ''Java'' \<noteq> ''c++''"
  by (simp add: lower_eq_c lower_eq_cpp)

lemma ex_filename: "classname_to_filename ex_ext (name ex_class) = ''foo_bar_baz.rst''"
  by code_simp

lemma ex_language_script_C:
  "language_script ex_globals ex_ext ''C'' =
     [Ensure ''out/c'', WriteFile ''out/c/enums.rst'' ''c:Color'',
      WriteFile ''out/c/foo_bar_baz.rst'' ''c:Foo.BarBaz'',
      WriteFile ''out/c/foo_util.rst'' ''c:Foo.Util'',
      WriteFile ''out/c/index.rst'' ''foo_bar_baz.rst,foo_util.rst'']"
  by code_simp

lemma ex_language_script_Cpp:
  "language_script ex_globals ex_ext ''C++'' =
     [Ensure ''out/cpp'', WriteFile ''out/cpp/enums.rst'' ''cpp:Color'',
      WriteFile ''out/cpp/foo_bar_baz.rst'' ''cpp:Foo.BarBaz'',
      WriteFile ''out/cpp/foo_util.rst'' ''cpp:Foo.Util'',
      WriteFile ''out/cpp/index.rst'' ''foo_bar_baz.rst,foo_util.rst'']"
  by code_simp

lemma ex_generate_language_C:
  "\<exists>w'. generate_language ex_globals ex_ext ''C'' ex_world = (None, w') \<and>
     written (new_events ex_world w') =
       [(''out/c/enums.rst'', ''c:Color''), (''out/c/foo_bar_baz.rst'', ''c:Foo.BarBaz''),
        (''out/c/foo_util.rst'', ''c:Foo.Util''),
        (''out/c/index.rst'', ''foo_bar_baz.rst,foo_util.rst'')]"
  by (simp add: generate_language_exec ex_language_script_C ex_world_def os_path_exists_def
      os_mkdir_def open_write_def new_events_def)

lemma ex_generate:
  "\<exists>w'. generate ex_globals ex_ext (DocGenerator a) outputdir ex_world = (None, w') \<and>
     map fst (written (new_events ex_world w')) =
       [''out/c/enums.rst'', ''out/c/foo_bar_baz.rst'', ''out/c/foo_util.rst'',
        ''out/c/index.rst'', ''out/cpp/enums.rst'', ''out/cpp/foo_bar_baz.rst'',
        ''out/cpp/foo_util.rst'', ''out/cpp/index.rst''] \<and>
     files w' ''out/c/index.rst'' = Some ''foo_bar_baz.rst,foo_util.rst'' \<and>
     directories w' = {''out'', ''out/c'', ''out/cpp''}"
  by (auto simp: generate_def DocGenerator_def generate_loop_exec generate_script_def
      ex_language_script_C ex_language_script_Cpp ex_world_def os_path_exists_def
      os_mkdir_def open_write_def new_events_def)

lemma ex_EnumsPage_C:
  "EnumsPage ex_ext ''C'' (dict_values (enumsIndex (absApiParser ex_globals))) = Inr ep \<Longrightarrow>
     render_enums ex_ext ep = ''c:Color''"
  by (auto simp: EnumsPage_eq SphinxPage_eq lower_eq_c ex_globals_def ex_parser_def
      dict_values_def translate_enums_def ex_ext_def ex_enum_def Let_def)

lemma ex_filename_util: "classname_to_filename ex_ext (name ex_util) = ''foo_util.rst''"
  by code_simp

lemma ex_ext2_differs: "ex_ext2 \<noteq> ex_ext"
proof
  assume "ex_ext2 = ex_ext"
  then have "translate_doc ex_ext2 (SphinxTranslator CTranslator) ''Elsewhere.'' =
      translate_doc ex_ext (SphinxTranslator CTranslator) ''Elsewhere.''"
    by simp
  then show False by (simp add: ex_ext2_def ex_ext_def)
qed

lemma ex_same_translation: "same_translation ex_globals [''C'', ''C++''] ex_ext ex_ext2"
proof -
  have f: "translate_name ex_ext2 = translate_name ex_ext"
    "to_snake_case ex_ext2 = to_snake_case ex_ext"
    "translate_value ex_ext2 = translate_value ex_ext"
    "translate_as_prototype ex_ext2 = translate_as_prototype ex_ext"
    "find_first_ancestor_by_type ex_ext2 = find_first_ancestor_by_type ex_ext"
    "render_index ex_ext2 = render_index ex_ext"
    "render_enums ex_ext2 = render_enums ex_ext"
    "render_class ex_ext2 = render_class ex_ext"
    by (simp_all add: ex_ext2_def)
  have d: "\<And>t d. d \<noteq> ''Elsewhere.'' \<Longrightarrow> translate_doc ex_ext2 t d = translate_doc ex_ext t d"
    by (simp add: ex_ext2_def ex_ext_def)
  have e: "\<forall>enum \<in> set (dict_values (enumsIndex (absApiParser ex_globals))).
      briefDescription enum \<noteq> ''Elsewhere.'' \<and>
      (\<forall>e \<in> set (enumerators enum). briefDescription e \<noteq> ''Elsewhere.'')"
    by (simp add: ex_globals_def ex_parser_def dict_values_def ex_enum_def ex_enumerator_def)
  have c: "\<forall>c \<in> set (dict_values (classesIndex (absApiParser ex_globals))).
      briefDescription c \<noteq> ''Elsewhere.'' \<and>
      (\<forall>m \<in> set (instanceMethods c @ classMethods c). briefDescription m \<noteq> ''Elsewhere.'')"
    by (simp add: ex_globals_def ex_parser_def dict_values_def ex_class_def ex_util_def
        ex_method_def)
  show ?thesis
    unfolding same_translation_def same_name_def same_doc_def
    using e c by (auto simp: f d split: sum.splits)
qed

lemma ex_language_pages_C:
  "language_pages ex_globals ex_ext ''C'' ''c'' CTranslator CLangTranslator
     (SphinxTranslator CTranslator) =
     [(''out/c/enums.rst'', ''c:Color''), (''out/c/foo_bar_baz.rst'', ''c:Foo.BarBaz''),
      (''out/c/foo_util.rst'', ''c:Foo.Util''),
      (''out/c/index.rst'', ''foo_bar_baz.rst,foo_util.rst'')]"
  by code_simp

lemma ex_language_pages_Cpp:
  "language_pages ex_globals ex_ext ''C++'' ''cpp'' CppTranslator CppLangTranslator
     (SphinxTranslator CppTranslator) =
     [(''out/cpp/enums.rst'', ''cpp:Color''), (''out/cpp/foo_bar_baz.rst'', ''cpp:Foo.BarBaz''),
      (''out/cpp/foo_util.rst'', ''cpp:Foo.Util''),
      (''out/cpp/index.rst'', ''foo_bar_baz.rst,foo_util.rst'')]"
  by code_simp

section \<open>The claims\<close>

subsection \<open>C1: the flags hasMethods and hasClassMethods\<close>

text \<open>
  Claim C1 says that both flags are booleans computed from whether the list is
  non-empty. What the code does: \<^verbatim>\<open>hasMethods\<close> is the boolean
  \<^verbatim>\<open>len(self.methods) > 0\<close>, false exactly for a class with no instance method, while
  \<^verbatim>\<open>hasClassMethods\<close> is the integer \<^verbatim>\<open>len(self.classMethods)\<close>, the number of class
  methods: it is not a boolean, and for a class with two class methods it is \<open>2\<close>,
  which Python does not hold equal to \<^verbatim>\<open>True\<close>. It is truthy exactly when the class
  has a class method.
\<close>

theorem class_page_flags:
  assumes "ClassPage ext c lang = Inr page"
  shows "hasMethods page = PyBool (instanceMethods c \<noteq> []) \<and>
         hasClassMethods page = PyInt (int (length (classMethods c))) \<and>
         is_bool (hasMethods page) \<and>
         \<not> is_bool (hasClassMethods page) \<and>
         (truthy (hasClassMethods page) \<longleftrightarrow> classMethods c \<noteq> [])"
  using assms
  by (auto simp: ClassPage_eq has_methods_def has_class_methods_def truthy_def
      length_translate_methods translate_methods_Nil_iff split: sum.splits option.splits)

theorem class_page_flags_witness:
  "\<exists>page. ClassPage ex_ext ex_util ''C'' = Inr page \<and>
     hasMethods page = PyBool False \<and>
     hasClassMethods page = PyInt 2 \<and>
     \<not> is_bool (hasClassMethods page) \<and>
     \<not> py_eq (hasClassMethods page) (PyBool True)"
proof -
  obtain page where p: "ClassPage ex_ext ex_util ''C'' = Inr page"
    using ex_ClassPage_util_C by blast
  from class_page_flags[OF p] show ?thesis
    using p by (simp add: ex_util_def py_eq_def)
qed

subsection \<open>C2: generate reads the module-level names\<close>

text \<open>
  Claim C2. \<^verbatim>\<open>DocGenerator.generate\<close> uses neither its argument \<^verbatim>\<open>outputdir\<close> nor the
  attribute \<^verbatim>\<open>self.api\<close>: two generators built from different API objects, called with
  different arguments, do the same. Every directory a run makes is
  \<^verbatim>\<open>args.outputdir\<close> joined with \<^verbatim>\<open>c\<close> or \<^verbatim>\<open>cpp\<close>. What a run writes, paths and data, is
  a beginning of the pages of the language \<^verbatim>\<open>C\<close> followed by the pages of the language
  \<^verbatim>\<open>C++\<close>, and all of them when the run ends without exception: for each language the
  Enums page of the enums of \<^verbatim>\<open>absApiParser.enumsIndex\<close>, one page per class of
  \<^verbatim>\<open>absApiParser.classesIndex\<close> and the Index page, each at its file name joined to
  the directory of the language under \<^verbatim>\<open>args.outputdir\<close>.
\<close>

theorem generate_ignores_its_argument_and_api:
  "generate g ext (DocGenerator api1) outputdir1 w =
     generate g ext (DocGenerator api2) outputdir2 w \<and>
   (\<forall>e w'. generate g ext (DocGenerator api1) outputdir1 w = (e, w') \<longrightarrow>
      (\<forall>ev \<in> set (new_events w w').
         case ev of
           Mkdir d \<Rightarrow> d = os_path_join (args_outputdir g) ''c'' \<or>
                      d = os_path_join (args_outputdir g) ''cpp''
         | Write p data \<Rightarrow>
             \<exists>fn. p = os_path_join (os_path_join (args_outputdir g) ''c'') fn \<or>
                  p = os_path_join (os_path_join (args_outputdir g) ''cpp'') fn) \<and>
      (\<exists>k. written (new_events w w') =
         take k (language_pages g ext ''C'' ''c'' CTranslator CLangTranslator
                   (SphinxTranslator CTranslator) @
                 language_pages g ext ''C++'' ''cpp'' CppTranslator CppLangTranslator
                   (SphinxTranslator CppTranslator))) \<and>
      (e = None \<longrightarrow>
         written (new_events w w') =
           language_pages g ext ''C'' ''c'' CTranslator CLangTranslator
             (SphinxTranslator CTranslator) @
           language_pages g ext ''C++'' ''cpp'' CppTranslator CppLangTranslator
             (SphinxTranslator CppTranslator) \<and>
         map fst (written (new_events w w')) =
           (os_path_join (os_path_join (args_outputdir g) ''c'') ''enums.rst'' #
            map (\<lambda>c. os_path_join (os_path_join (args_outputdir g) ''c'')
                       (classname_to_filename ext (name c)))
              (dict_values (classesIndex (absApiParser g))) @
            [os_path_join (os_path_join (args_outputdir g) ''c'') ''index.rst'']) @
           (os_path_join (os_path_join (args_outputdir g) ''cpp'') ''enums.rst'' #
            map (\<lambda>c. os_path_join (os_path_join (args_outputdir g) ''cpp'')
                       (classname_to_filename ext (name c)))
              (dict_values (classesIndex (absApiParser g))) @
            [os_path_join (os_path_join (args_outputdir g) ''cpp'') ''index.rst''])))"
proof -
  have "generate g ext (DocGenerator api1) outputdir1 w =
     generate g ext (DocGenerator api2) outputdir2 w"
    by (simp add: generate_def DocGenerator_def)
  then show ?thesis
    using generate_events[of g ext api1 outputdir1 w]
      generate_None_paths[of g ext api1 outputdir1 w]
      generate_written[of g ext api1 outputdir1 w]
    by blast
qed

theorem generate_ignores_witness:
  "generate ex_globals ex_ext (DocGenerator \<lparr>enumsIndex = [], classesIndex = []\<rparr>) ''elsewhere''
     ex_world =
   generate ex_globals ex_ext (DocGenerator ex_parser) ''out'' ex_world \<and>
   (\<exists>w'. generate ex_globals ex_ext (DocGenerator \<lparr>enumsIndex = [], classesIndex = []\<rparr>)
            ''elsewhere'' ex_world = (None, w') \<and>
      set (new_events ex_world w') \<noteq> {} \<and>
      written (new_events ex_world w') =
        [(''out/c/enums.rst'', ''c:Color''), (''out/c/foo_bar_baz.rst'', ''c:Foo.BarBaz''),
         (''out/c/foo_util.rst'', ''c:Foo.Util''),
         (''out/c/index.rst'', ''foo_bar_baz.rst,foo_util.rst''),
         (''out/cpp/enums.rst'', ''cpp:Color''), (''out/cpp/foo_bar_baz.rst'', ''cpp:Foo.BarBaz''),
         (''out/cpp/foo_util.rst'', ''cpp:Foo.Util''),
         (''out/cpp/index.rst'', ''foo_bar_baz.rst,foo_util.rst'')])"
proof -
  obtain w' where run:
    "generate ex_globals ex_ext (DocGenerator \<lparr>enumsIndex = [], classesIndex = []\<rparr>)
       ''elsewhere'' ex_world = (None, w')"
    using ex_generate by blast
  note inst = generate_ignores_its_argument_and_api
    [where g = ex_globals and ext = ex_ext and ?api1.0 = "\<lparr>enumsIndex = [], classesIndex = []\<rparr>"
       and ?outputdir1.0 = "''elsewhere''" and ?api2.0 = ex_parser and ?outputdir2.0 = "''out''"
       and w = ex_world]
  from inst run have "written (new_events ex_world w') =
      language_pages ex_globals ex_ext ''C'' ''c'' CTranslator CLangTranslator
        (SphinxTranslator CTranslator) @
      language_pages ex_globals ex_ext ''C++'' ''cpp'' CppTranslator CppLangTranslator
        (SphinxTranslator CppTranslator)"
    by blast
  then have p: "written (new_events ex_world w') =
        [(''out/c/enums.rst'', ''c:Color''), (''out/c/foo_bar_baz.rst'', ''c:Foo.BarBaz''),
         (''out/c/foo_util.rst'', ''c:Foo.Util''),
         (''out/c/index.rst'', ''foo_bar_baz.rst,foo_util.rst''),
         (''out/cpp/enums.rst'', ''cpp:Color''), (''out/cpp/foo_bar_baz.rst'', ''cpp:Foo.BarBaz''),
         (''out/cpp/foo_util.rst'', ''cpp:Foo.Util''),
         (''out/cpp/index.rst'', ''foo_bar_baz.rst,foo_util.rst'')]"
    by (simp add: ex_language_pages_C ex_language_pages_Cpp)
  then have ne: "set (new_events ex_world w') \<noteq> {}" by auto
  from inst have eq:
    "generate ex_globals ex_ext (DocGenerator \<lparr>enumsIndex = [], classesIndex = []\<rparr>) ''elsewhere''
       ex_world =
     generate ex_globals ex_ext (DocGenerator ex_parser) ''out'' ex_world"
    by (rule conjunct1)
  show ?thesis by (intro conjI exI[of _ w']) (rule eq run ne p)+
qed

subsection \<open>C3: the index entry of a class names the file of its page\<close>

text \<open>
  Claim C3. The entry \<^verbatim>\<open>add_class_entry\<close> appends to the index page for a class holds
  the file name of the Class page of that class: both come from
  \<^verbatim>\<open>_classname_to_filename\<close> applied to the name of the class. In the loop of
  \<^verbatim>\<open>generate\<close>, the paths of the class pages written are the entries added to the
  index, joined to the directory, in the same order.
\<close>

theorem index_entry_names_the_class_page_file:
  "(\<forall>page. ClassPage ext c lang = Inr page \<longrightarrow>
      filename page = classname_to_filename ext (name c) \<and>
      tocEntries (add_class_entry ext indexPage c) =
        tocEntries indexPage @ [\<lparr>entryName = filename page\<rparr>]) \<and>
   (\<forall>indexPage' w'. class_loop ext lang directory cs indexPage w = (Inr indexPage', w') \<longrightarrow>
      map fst (written (new_events w w')) =
        map (\<lambda>e. os_path_join directory (entryName e))
          (drop (length (tocEntries indexPage)) (tocEntries indexPage')))"
proof -
  have wr: "\<And>f. written (map (\<lambda>c. Write (fst (f c)) (snd (f c))) cs) = map f cs"
    by (induction cs) simp_all
  have "\<And>indexPage' w'. class_loop ext lang directory cs indexPage w = (Inr indexPage', w') \<Longrightarrow>
      map fst (written (new_events w w')) =
        map (\<lambda>e. os_path_join directory (entryName e))
          (drop (length (tocEntries indexPage)) (tocEntries indexPage'))"
  proof -
    fix indexPage' w'
    assume a: "class_loop ext lang directory cs indexPage w = (Inr indexPage', w')"
    from class_loop_Inr[OF a] show "map fst (written (new_events w w')) =
        map (\<lambda>e. os_path_join directory (entryName e))
          (drop (length (tocEntries indexPage)) (tocEntries indexPage'))"
      using wr[of "\<lambda>c. (os_path_join directory (classname_to_filename ext (name c)),
                         render_class ext (projr (ClassPage ext c lang)))"]
      by (simp add: new_events_def comp_def)
  qed
  then show ?thesis
    by (auto simp: add_class_entry_def ClassPage_filename)
qed

theorem index_entry_witness:
  "(\<exists>page. ClassPage ex_ext ex_class ''C'' = Inr page \<and> filename page = ''foo_bar_baz.rst'') \<and>
   (\<exists>indexPage. IndexPage ''C'' = Inr indexPage \<and>
      map entryName (tocEntries (add_class_entry ex_ext indexPage ex_class)) = [''foo_bar_baz.rst''])"
proof -
  obtain page where p: "ClassPage ex_ext ex_class ''C'' = Inr page"
    using ex_ClassPage_C by blast
  obtain indexPage where i: "IndexPage ''C'' = Inr indexPage" and t: "tocEntries indexPage = []"
    by (simp add: IndexPage_eq SphinxPage_eq lower_eq_c)
  from index_entry_names_the_class_page_file
      [where ext = ex_ext and c = ex_class and lang = "''C''" and indexPage = indexPage
         and cs = "[]" and w = ex_world and directory = "''out/c''"] p
  have "filename page = classname_to_filename ex_ext (name ex_class) \<and>
      tocEntries (add_class_entry ex_ext indexPage ex_class) =
        tocEntries indexPage @ [\<lparr>entryName = filename page\<rparr>]"
    by blast
  with p i t show ?thesis by (simp add: ex_filename)
qed

subsection \<open>C4: an unsupported language raises ValueError before anything is written\<close>

text \<open>
  Claim C4. For a language whose lowercase form is neither \<^verbatim>\<open>c\<close> nor \<^verbatim>\<open>c++\<close>, each of
  the four page constructors and \<^verbatim>\<open>_get_subdirectory\<close> raise \<^verbatim>\<open>ValueError\<close>; there is no
  fallback. No page exists then, so nothing is written for it: the loop over the classes
  and the body of \<^verbatim>\<open>generate\<close> for that language stop with the file system untouched.
\<close>

theorem unsupported_language_raises_ValueError:
  assumes "lower lang \<noteq> ''c''" and "lower lang \<noteq> ''c++''"
  shows "SphinxPage lang f = Inl (ValueError lang) \<and>
         IndexPage lang = Inl (ValueError lang) \<and>
         EnumsPage ext lang es = Inl (ValueError lang) \<and>
         ClassPage ext c lang = Inl (ValueError lang) \<and>
         get_subdirectory lang =
           Inl (ValueError ([CHR 0x27] @ lang @ [CHR 0x27] @ '' language not supported'')) \<and>
         class_loop ext lang directory (c # cs) indexPage w = (Inl (ValueError lang), w) \<and>
         generate_language g ext lang w =
           (Some (ValueError ([CHR 0x27] @ lang @ [CHR 0x27] @ '' language not supported'')), w)"
proof -
  have sp: "\<And>f. SphinxPage lang f = Inl (ValueError lang)"
    using assms by (rule SphinxPage_unsupported)
  have cp: "ClassPage ext c lang = Inl (ValueError lang)"
    by (simp add: ClassPage_eq sp)
  have sub: "get_subdirectory lang =
      Inl (ValueError ([CHR 0x27] @ lang @ [CHR 0x27] @ '' language not supported''))"
    using assms by (simp add: get_subdirectory_eq)
  show ?thesis
    by (simp add: sp cp sub IndexPage_eq EnumsPage_eq generate_language_def)
qed

theorem unsupported_language_witness:
  "lower ''Java'' \<noteq> ''c'' \<and> lower ''Java'' \<noteq> ''c++'' \<and>
   IndexPage ''Java'' = Inl (ValueError ''Java'') \<and>
   EnumsPage ex_ext ''Java'' [ex_enum] = Inl (ValueError ''Java'') \<and>
   ClassPage ex_ext ex_class ''Java'' = Inl (ValueError ''Java'') \<and>
   generate_language ex_globals ex_ext ''Java'' ex_world =
     (Some (ValueError (CHR 0x27 # ''Java'' @ CHR 0x27 # '' language not supported'')), ex_world)"
proof -
  have a: "lower ''Java'' \<noteq> ''c''" by (simp add: lower_eq_c)
  have b: "lower ''Java'' \<noteq> ''c++''" by (simp add: lower_eq_cpp)
  show ?thesis
    using a b unsupported_language_raises_ValueError
      [OF a b, where ext = ex_ext and es = "[ex_enum]" and c = ex_class and g = ex_globals
         and w = ex_world]
    by simp
qed

subsection \<open>C5: enumerators keep their declaration order\<close>

text \<open>
  Claim C5. The list \<^verbatim>\<open>_translate_enum_values\<close> returns has one entry per enumerator
  of the enum, and its \<open>i\<close>-th entry is the translation of the \<open>i\<close>-th enumerator; the
  same holds for every enum of an Enums page, whose enums are themselves in the order
  given.
\<close>

theorem enumerators_keep_declaration_order:
  "length (translate_enum_values ext self enum) = length (enumerators enum) \<and>
   (\<forall>i < length (enumerators enum).
      translate_enum_values ext self enum ! i =
        \<lparr>value_name = translate_name ext (nameTranslator self) False (name (enumerators enum ! i)),
         value_briefDesc =
           translate_doc ext (docTranslator self) (briefDescription (enumerators enum ! i)),
         value_value = translate_value ext (langTranslator self) (enumerators enum ! i)\<rparr>) \<and>
   (\<forall>page. EnumsPage ext lang es = Inr page \<longrightarrow>
      length (enums page) = length es \<and>
      (\<forall>j < length es.
         enum_enumerators (enums page ! j) =
           translate_enum_values ext (sphinx_page.truncate page) (es ! j)))"
proof -
  have "\<And>page. EnumsPage ext lang es = Inr page \<Longrightarrow>
      length (enums page) = length es \<and>
      (\<forall>j < length es.
         enum_enumerators (enums page ! j) =
           translate_enum_values ext (sphinx_page.truncate page) (es ! j))"
    by (auto simp: EnumsPage_eq translate_enums_def translate_enums_loop_map
        sphinx_page.truncate_def sphinx_page_eta split: sum.splits)
  then show ?thesis
    by (simp add: translate_enum_values_def translate_enum_values_loop_map)
qed

theorem enumerators_order_witness:
  "length (translate_enum_values ex_ext
     \<lparr>language = ''C'', nameTranslator = CTranslator, langTranslator = CLangTranslator,
      docTranslator = SphinxTranslator CTranslator, filename = ''enums.rst''\<rparr> ex_enum) = 3 \<and>
   value_name (translate_enum_values ex_ext
     \<lparr>language = ''C'', nameTranslator = CTranslator, langTranslator = CLangTranslator,
      docTranslator = SphinxTranslator CTranslator, filename = ''enums.rst''\<rparr> ex_enum ! 0) = ''c:B'' \<and>
   value_name (translate_enum_values ex_ext
     \<lparr>language = ''C'', nameTranslator = CTranslator, langTranslator = CLangTranslator,
      docTranslator = SphinxTranslator CTranslator, filename = ''enums.rst''\<rparr> ex_enum ! 1) = ''c:A'' \<and>
   value_name (translate_enum_values ex_ext
     \<lparr>language = ''C'', nameTranslator = CTranslator, langTranslator = CLangTranslator,
      docTranslator = SphinxTranslator CTranslator, filename = ''enums.rst''\<rparr> ex_enum ! 2) = ''c:C''"
proof -
  have n: "length (enumerators ex_enum) = 3" by (simp add: ex_enum_def)
  show ?thesis
    using enumerators_keep_declaration_order
      [where ext = ex_ext and enum = ex_enum and lang = "''C''" and es = "[ex_enum]" and self =
        "\<lparr>language = ''C'', nameTranslator = CTranslator, langTranslator = CLangTranslator,
          docTranslator = SphinxTranslator CTranslator, filename = ''enums.rst''\<rparr>"]
    by (simp add: n ex_enum_def ex_enumerator_def ex_ext_def)
qed

subsection \<open>C6: the order of generation\<close>

text \<open>
  Claim C6. A generator handles the language \<^verbatim>\<open>C\<close>, then the language \<^verbatim>\<open>C++\<close>. For a
  language, a run that ends without exception has built every page and has written, in
  this order: the Enums page, the Class page of every class in the order in which
  \<^verbatim>\<open>classesIndex.values()\<close> lists them, and last the Index page, which then holds one
  entry per class in the same order. A run that an exception stops has written a
  beginning of the same sequence.
\<close>

theorem generation_order:
  "generate g ext (DocGenerator a) outputdir w =
     (case generate_language g ext ''C'' w of
        (Some e, w1) \<Rightarrow> (Some e, w1)
      | (None, w1) \<Rightarrow> generate_language g ext ''C++'' w1) \<and>
   (\<forall>w'. generate_language g ext lang w = (None, w') \<longrightarrow>
      (\<exists>subdirectory enumsPage indexPage.
         get_subdirectory lang = Inr subdirectory \<and>
         EnumsPage ext lang (dict_values (enumsIndex (absApiParser g))) = Inr enumsPage \<and>
         IndexPage lang = Inr indexPage \<and>
         (\<forall>c \<in> set (dict_values (classesIndex (absApiParser g))).
            \<exists>page. ClassPage ext c lang = Inr page) \<and>
         written (new_events w w') =
           (os_path_join (os_path_join (args_outputdir g) subdirectory) ''enums.rst'',
            render_enums ext enumsPage) #
           map (\<lambda>c. (os_path_join (os_path_join (args_outputdir g) subdirectory)
                       (classname_to_filename ext (name c)),
                     render_class ext (projr (ClassPage ext c lang))))
             (dict_values (classesIndex (absApiParser g))) @
           [(os_path_join (os_path_join (args_outputdir g) subdirectory) ''index.rst'',
             render_index ext
               (indexPage\<lparr>tocEntries :=
                  map (\<lambda>c. \<lparr>entryName = classname_to_filename ext (name c)\<rparr>)
                    (dict_values (classesIndex (absApiParser g)))\<rparr>))])) \<and>
   (\<forall>e w'. generate_language g ext lang w = (e, w') \<longrightarrow>
      (\<exists>k. written (new_events w w') = take k (requested (language_script g ext lang))))"
proof -
  have a: "\<And>w'. generate_language g ext lang w = (None, w') \<Longrightarrow>
      (\<exists>subdirectory enumsPage indexPage.
         get_subdirectory lang = Inr subdirectory \<and>
         EnumsPage ext lang (dict_values (enumsIndex (absApiParser g))) = Inr enumsPage \<and>
         IndexPage lang = Inr indexPage \<and>
         (\<forall>c \<in> set (dict_values (classesIndex (absApiParser g))).
            \<exists>page. ClassPage ext c lang = Inr page) \<and>
         written (new_events w w') =
           (os_path_join (os_path_join (args_outputdir g) subdirectory) ''enums.rst'',
            render_enums ext enumsPage) #
           map (\<lambda>c. (os_path_join (os_path_join (args_outputdir g) subdirectory)
                       (classname_to_filename ext (name c)),
                     render_class ext (projr (ClassPage ext c lang))))
             (dict_values (classesIndex (absApiParser g))) @
           [(os_path_join (os_path_join (args_outputdir g) subdirectory) ''index.rst'',
             render_index ext
               (indexPage\<lparr>tocEntries :=
                  map (\<lambda>c. \<lparr>entryName = classname_to_filename ext (name c)\<rparr>)
                    (dict_values (classesIndex (absApiParser g)))\<rparr>))])"
  proof -
    fix w' assume "generate_language g ext lang w = (None, w')"
    from generate_language_None[OF this] show "?thesis w'"
      by (auto simp: new_events_def)
  qed
  have b: "\<And>e w'. generate_language g ext lang w = (e, w') \<Longrightarrow>
      (\<exists>k. written (new_events w w') = take k (requested (language_script g ext lang)))"
  proof -
    fix e w' assume "generate_language g ext lang w = (e, w')"
    then have "exec (language_script g ext lang) w = (e, w')"
      by (simp add: generate_language_exec)
    from exec_written_prefix[OF this] show "?thesis e w'"
      by (auto simp: new_events_def)
  qed
  from a b generate_DocGenerator[of g ext a outputdir w] show ?thesis by blast
qed

theorem generation_order_witness:
  "\<exists>w'. generate_language ex_globals ex_ext ''C'' ex_world = (None, w') \<and>
     written (new_events ex_world w') =
       [(''out/c/enums.rst'', ''c:Color''), (''out/c/foo_bar_baz.rst'', ''c:Foo.BarBaz''),
        (''out/c/foo_util.rst'', ''c:Foo.Util''),
        (''out/c/index.rst'', ''foo_bar_baz.rst,foo_util.rst'')]"
proof -
  obtain w' where run: "generate_language ex_globals ex_ext ''C'' ex_world = (None, w')"
    using ex_generate_language_C by blast
  from generation_order
    [where g = ex_globals and ext = ex_ext and lang = "''C''" and w = ex_world
       and a = ex_parser and outputdir = "''out''"] run
  obtain subdirectory enumsPage indexPage where
    sub: "get_subdirectory ''C'' = Inr subdirectory" and
    ep: "EnumsPage ex_ext ''C'' (dict_values (enumsIndex (absApiParser ex_globals))) = Inr enumsPage" and
    ip: "IndexPage ''C'' = Inr indexPage" and
    wr: "written (new_events ex_world w') =
           (os_path_join (os_path_join (args_outputdir ex_globals) subdirectory) ''enums.rst'',
            render_enums ex_ext enumsPage) #
           map (\<lambda>c. (os_path_join (os_path_join (args_outputdir ex_globals) subdirectory)
                       (classname_to_filename ex_ext (name c)),
                     render_class ex_ext (projr (ClassPage ex_ext c ''C''))))
             (dict_values (classesIndex (absApiParser ex_globals))) @
           [(os_path_join (os_path_join (args_outputdir ex_globals) subdirectory) ''index.rst'',
             render_index ex_ext
               (indexPage\<lparr>tocEntries :=
                  map (\<lambda>c. \<lparr>entryName = classname_to_filename ex_ext (name c)\<rparr>)
                    (dict_values (classesIndex (absApiParser ex_globals)))\<rparr>))]"
    by blast
  from sub have s: "subdirectory = ''c''" by (simp add: get_subdirectory_C)
  have r: "render_index ex_ext
               (indexPage\<lparr>tocEntries :=
                  map (\<lambda>c. \<lparr>entryName = classname_to_filename ex_ext (name c)\<rparr>)
                    (dict_values (classesIndex (absApiParser ex_globals)))\<rparr>) =
           ''foo_bar_baz.rst,foo_util.rst''"
    by (simp add: ex_globals_def ex_parser_def dict_values_def ex_filename ex_filename_util)
      (simp add: ex_ext_def)
  have c1: "render_class ex_ext (projr (ClassPage ex_ext ex_class ''C'')) = ''c:Foo.BarBaz''"
    by (simp add: ex_ClassPage_C) (simp add: ex_ext_def)
  have c2: "render_class ex_ext (projr (ClassPage ex_ext ex_util ''C'')) = ''c:Foo.Util''"
    by (simp add: ex_ClassPage_util_C) (simp add: ex_ext_def)
  from wr have "written (new_events ex_world w') =
       [(''out/c/enums.rst'', ''c:Color''), (''out/c/foo_bar_baz.rst'', ''c:Foo.BarBaz''),
        (''out/c/foo_util.rst'', ''c:Foo.Util''),
        (''out/c/index.rst'', ''foo_bar_baz.rst,foo_util.rst'')]"
    unfolding r s ex_EnumsPage_C[OF ep]
    by (simp add: ex_globals_def ex_parser_def dict_values_def os_path_join_def ex_filename
        ex_filename_util c1 c2)
  with run show ?thesis by blast
qed

subsection \<open>C7: the file names of the pages\<close>

text \<open>
  Claim C7. The file name of a Class page, and the entry the Index page holds for the
  class, is \<^verbatim>\<open>to_snake_case(fullName=True)\<close> of the name of the class followed by
  \<^verbatim>\<open>.rst\<close>. With \<^verbatim>\<open>to_snake_case\<close> as the specification describes it, this is the
  lowercased words of all segments of the fully-qualified name joined by underscores,
  and lowercasing the file name again changes nothing. The Index page and the Enums
  page have the file names \<^verbatim>\<open>index.rst\<close> and \<^verbatim>\<open>enums.rst\<close>.
\<close>

theorem class_page_filename_is_snake_case:
  assumes "to_snake_case ext = spec_to_snake_case"
  shows "classname_to_filename ext n = join ''_'' (map lower (concat n)) @ ''.rst'' \<and>
         lower (classname_to_filename ext n) = classname_to_filename ext n \<and>
         (\<forall>page. ClassPage ext c lang = Inr page \<longrightarrow>
            filename page = classname_to_filename ext (name c)) \<and>
         tocEntries (add_class_entry ext indexPage c) =
           tocEntries indexPage @ [\<lparr>entryName = classname_to_filename ext (name c)\<rparr>] \<and>
         (\<forall>page. IndexPage lang = Inr page \<longrightarrow> filename page = ''index.rst'') \<and>
         (\<forall>page. EnumsPage ext lang es = Inr page \<longrightarrow> filename page = ''enums.rst'')"
proof -
  have a: "classname_to_filename ext n = join ''_'' (map lower (concat n)) @ ''.rst''"
    using assms by (simp add: classname_to_filename_def spec_to_snake_case_def)
  have b: "lower (classname_to_filename ext n) = classname_to_filename ext n"
    unfolding a by (simp add: lower_append lower_join lower_underscore lower_rst lower_idem comp_def)
  show ?thesis
    using a b ClassPage_filename IndexPage_filename EnumsPage_filename
    by (auto simp: add_class_entry_def)
qed

theorem class_page_filename_witness:
  "to_snake_case ex_ext = spec_to_snake_case \<and>
   classname_to_filename ex_ext (name ex_class) = ''foo_bar_baz.rst'' \<and>
   (\<exists>page. ClassPage ex_ext ex_class ''C++'' = Inr page \<and> filename page = ''foo_bar_baz.rst'') \<and>
   (\<exists>page. IndexPage ''C++'' = Inr page \<and> filename page = ''index.rst'' \<and>
      map entryName (tocEntries (add_class_entry ex_ext page ex_class)) = [''foo_bar_baz.rst'']) \<and>
   (\<exists>page. EnumsPage ex_ext ''C++'' [ex_enum] = Inr page \<and> filename page = ''enums.rst'')"
proof -
  have h: "to_snake_case ex_ext = spec_to_snake_case" by (simp add: ex_ext_def)
  have n: "join ''_'' (map lower (concat (name ex_class))) @ ''.rst'' = ''foo_bar_baz.rst''"
    by code_simp
  obtain cp where cp: "ClassPage ex_ext ex_class ''C++'' = Inr cp"
    by (cases "ClassPage ex_ext ex_class ''C++''")
      (auto simp: ClassPage_eq SphinxPage_eq lower_eq_c lower_eq_cpp ex_ext_def ex_class_def
        split: sum.splits option.splits if_splits)
  obtain ip where ip: "IndexPage ''C++'' = Inr ip" and t: "tocEntries ip = []"
    by (simp add: IndexPage_eq SphinxPage_eq lower_eq_c lower_eq_cpp)
  obtain ep where ep: "EnumsPage ex_ext ''C++'' [ex_enum] = Inr ep"
    by (simp add: EnumsPage_eq SphinxPage_eq lower_eq_c lower_eq_cpp)
  from class_page_filename_is_snake_case
      [OF h, where n = "name ex_class" and c = ex_class and lang = "''C++''" and indexPage = ip
         and es = "[ex_enum]"]
    h n cp ip t ep
  show ?thesis by simp
qed

subsection \<open>C8: generating twice\<close>

text \<open>
  Claim C8. That translating the same identifier twice for the same language yields
  the same string is a statement about modules that are not in the generator's file;
  it is the predicate \<open>same_translation\<close>, modelled from the specification, between
  what the modules return during the first run (\<open>ext\<close>) and during the second
  (\<open>ext'\<close>). On it, running \<^verbatim>\<open>generate\<close> a second time, from the world the first run
  left, ends the same way (with the same exception, if any), writes the same data to
  the same paths in the same order, and leaves every file and directory as the first
  run left it. The functions of the model satisfy the predicate, so this holds of a
  second run with the same \<open>ext\<close>. A page is written whatever the file held before:
  whether \<^verbatim>\<open>write\<close> succeeds does not depend on the files present, and afterwards the
  file holds the rendered page and no other file has changed.
\<close>

theorem regeneration_is_idempotent:
  "(\<forall>e w1. generate g ext self outputdir w = (e, w1) \<longrightarrow>
      (\<exists>w2. generate g ext self outputdir w1 = (e, w2) \<and>
         files w2 = files w1 \<and> directories w2 = directories w1 \<and>
         written (new_events w1 w2) = written (new_events w w1))) \<and>
   (\<forall>e w1. same_translation g (languages self) ext ext' \<and>
        generate g ext self outputdir w = (e, w1) \<longrightarrow>
      (\<exists>w2. generate g ext' self outputdir w1 = (e, w2) \<and>
         files w2 = files w1 \<and> directories w2 = directories w1 \<and>
         written (new_events w1 w2) = written (new_events w w1))) \<and>
   same_translation g (languages self) ext ext \<and>
   (\<forall>v'. write_page render page directory v = (None, v') \<longrightarrow>
      files v' (os_path_join directory (filename page)) = Some (render page) \<and>
      (\<forall>q. q \<noteq> os_path_join directory (filename page) \<longrightarrow> files v' q = files v q)) \<and>
   fst (write_page render page directory (v\<lparr>files := fs\<rparr>)) =
     fst (write_page render page directory v)"
proof -
  have a': "\<And>e w1. same_translation g (languages self) ext ext' \<Longrightarrow>
      generate g ext self outputdir w = (e, w1) \<Longrightarrow>
      (\<exists>w2. generate g ext' self outputdir w1 = (e, w2) \<and>
         files w2 = files w1 \<and> directories w2 = directories w1 \<and>
         written (new_events w1 w2) = written (new_events w w1))"
  proof -
    fix e w1
    assume st: "same_translation g (languages self) ext ext'"
      and "generate g ext self outputdir w = (e, w1)"
    then have "exec (generate_script g ext (languages self)) w = (e, w1)"
      by (simp add: generate_def generate_loop_exec)
    from exec_twice[OF this] show "?thesis e w1"
      by (auto simp: generate_def generate_loop_exec same_generate_script[OF st])
  qed
  have a: "\<And>e w1. generate g ext self outputdir w = (e, w1) \<Longrightarrow>
      (\<exists>w2. generate g ext self outputdir w1 = (e, w2) \<and>
         files w2 = files w1 \<and> directories w2 = directories w1 \<and>
         written (new_events w1 w2) = written (new_events w w1))"
  proof -
    fix e w1 assume "generate g ext self outputdir w = (e, w1)"
    then have "exec (generate_script g ext (languages self)) w = (e, w1)"
      by (simp add: generate_def generate_loop_exec)
    from exec_twice[OF this] show "?thesis e w1"
      by (auto simp: generate_def generate_loop_exec)
  qed
  have b: "\<And>v'. write_page render page directory v = (None, v') \<Longrightarrow>
      files v' (os_path_join directory (filename page)) = Some (render page) \<and>
      (\<forall>q. q \<noteq> os_path_join directory (filename page) \<longrightarrow> files v' q = files v q)"
    by (auto simp: write_page_eq split: if_splits)
  have c: "fst (write_page render page directory (v\<lparr>files := fs\<rparr>)) =
     fst (write_page render page directory v)"
    by (simp add: write_page_eq)
  from a a' b c same_translation_refl[of g "languages self" ext] show ?thesis by blast
qed

theorem regeneration_witness:
  "ex_ext2 \<noteq> ex_ext \<and>
   same_translation ex_globals (languages (DocGenerator ex_parser)) ex_ext ex_ext2 \<and>
   (\<exists>w1 w2. generate ex_globals ex_ext (DocGenerator ex_parser) ''out'' ex_world = (None, w1) \<and>
     generate ex_globals ex_ext2 (DocGenerator ex_parser) ''out'' w1 = (None, w2) \<and>
     files w2 = files w1 \<and> directories w2 = directories w1 \<and>
     written (new_events w1 w2) = written (new_events ex_world w1) \<and>
     files w2 ''out/c/index.rst'' = Some ''foo_bar_baz.rst,foo_util.rst'')"
proof -
  have st: "same_translation ex_globals (languages (DocGenerator ex_parser)) ex_ext ex_ext2"
    using ex_same_translation by (simp add: DocGenerator_def)
  obtain w1 where run: "generate ex_globals ex_ext (DocGenerator ex_parser) ''out'' ex_world = (None, w1)"
    and f: "files w1 ''out/c/index.rst'' = Some ''foo_bar_baz.rst,foo_util.rst''"
    using ex_generate by blast
  from regeneration_is_idempotent
    [where g = ex_globals and ext = ex_ext and ext' = ex_ext2 and self = "DocGenerator ex_parser"
       and outputdir = "''out''" and w = ex_world] st run
  obtain w2 where w2: "generate ex_globals ex_ext2 (DocGenerator ex_parser) ''out'' w1 = (None, w2)"
    "files w2 = files w1" "directories w2 = directories w1"
    "written (new_events w1 w2) = written (new_events ex_world w1)"
    by blast
  with f have "files w2 ''out/c/index.rst'' = Some ''foo_bar_baz.rst,foo_util.rst''" by simp
  with run w2 have "\<exists>w1 w2. generate ex_globals ex_ext (DocGenerator ex_parser) ''out'' ex_world = (None, w1) \<and>
     generate ex_globals ex_ext2 (DocGenerator ex_parser) ''out'' w1 = (None, w2) \<and>
     files w2 = files w1 \<and> directories w2 = directories w1 \<and>
     written (new_events w1 w2) = written (new_events ex_world w1) \<and>
     files w2 ''out/c/index.rst'' = Some ''foo_bar_baz.rst,foo_util.rst''"
    by blast
  with ex_ext2_differs st show ?thesis by blast
qed

subsection \<open>C9: the language is selected without regard to case\<close>

text \<open>
  Claim C9. A string \<open>s\<close> is accepted by the page constructors exactly when
  \<^verbatim>\<open>s.lower()\<close> is \<^verbatim>\<open>c\<close> or \<^verbatim>\<open>c++\<close>, that is for the four strings \<^verbatim>\<open>c\<close>, \<^verbatim>\<open>C\<close>, \<^verbatim>\<open>c++\<close>
  and \<^verbatim>\<open>C++\<close>; the C translators are chosen for the first two and the C++ translators
  for the other two. \<^verbatim>\<open>IndexPage\<close> and \<^verbatim>\<open>EnumsPage\<close> accept or raise as the base
  constructor does, and so does \<^verbatim>\<open>ClassPage\<close>, which can raise \<^verbatim>\<open>AttributeError\<close> only for
  an accepted language. \<^verbatim>\<open>_get_subdirectory\<close> maps the same strings to \<^verbatim>\<open>c\<close> and \<^verbatim>\<open>cpp\<close>,
  and every other string raises \<^verbatim>\<open>ValueError\<close> in both places.
\<close>

theorem language_selection_is_case_insensitive:
  "(lower s = ''c'' \<longleftrightarrow> s = ''c'' \<or> s = ''C'') \<and>
   (lower s = ''c++'' \<longleftrightarrow> s = ''c++'' \<or> s = ''C++'') \<and>
   SphinxPage s f =
     (if lower s = ''c'' then
        Inr \<lparr>language = s, nameTranslator = CTranslator, langTranslator = CLangTranslator,
             docTranslator = SphinxTranslator CTranslator, filename = f\<rparr>
      else if lower s = ''c++'' then
        Inr \<lparr>language = s, nameTranslator = CppTranslator, langTranslator = CppLangTranslator,
             docTranslator = SphinxTranslator CppTranslator, filename = f\<rparr>
      else Inl (ValueError s)) \<and>
   (case IndexPage s of
      Inl e \<Rightarrow> SphinxPage s ''index.rst'' = Inl e
    | Inr p \<Rightarrow> SphinxPage s ''index.rst'' = Inr (sphinx_page.truncate p)) \<and>
   (case EnumsPage ext s es of
      Inl e \<Rightarrow> SphinxPage s ''enums.rst'' = Inl e
    | Inr p \<Rightarrow> SphinxPage s ''enums.rst'' = Inr (sphinx_page.truncate p)) \<and>
   (case ClassPage ext c s of
      Inl e \<Rightarrow> SphinxPage s (classname_to_filename ext (name c)) = Inl e \<or>
               e = AttributeError \<and> (lower s = ''c'' \<or> lower s = ''c++'')
    | Inr p \<Rightarrow> SphinxPage s (classname_to_filename ext (name c)) = Inr (sphinx_page.truncate p)) \<and>
   get_subdirectory s =
     (if lower s = ''c'' then Inr ''c''
      else if lower s = ''c++'' then Inr ''cpp''
      else Inl (ValueError ([CHR 0x27] @ s @ [CHR 0x27] @ '' language not supported'')))"
proof -
  have idx: "(case IndexPage s of
      Inl e \<Rightarrow> SphinxPage s ''index.rst'' = Inl e
    | Inr p \<Rightarrow> SphinxPage s ''index.rst'' = Inr (sphinx_page.truncate p))"
    by (simp add: IndexPage_eq sphinx_page.truncate_def split: sum.splits)
  have enu: "(case EnumsPage ext s es of
      Inl e \<Rightarrow> SphinxPage s ''enums.rst'' = Inl e
    | Inr p \<Rightarrow> SphinxPage s ''enums.rst'' = Inr (sphinx_page.truncate p))"
    by (simp add: EnumsPage_eq sphinx_page.truncate_def split: sum.splits)
  have cls: "(case ClassPage ext c s of
      Inl e \<Rightarrow> SphinxPage s (classname_to_filename ext (name c)) = Inl e \<or>
               e = AttributeError \<and> (lower s = ''c'' \<or> lower s = ''c++'')
    | Inr p \<Rightarrow> SphinxPage s (classname_to_filename ext (name c)) = Inr (sphinx_page.truncate p))"
    by (auto simp: ClassPage_eq sphinx_page.truncate_def dest: SphinxPage_Inr
        split: sum.splits option.splits)
  show ?thesis
    by (intro conjI) (rule lower_eq_c lower_eq_cpp SphinxPage_eq idx enu cls get_subdirectory_eq)+
qed

theorem language_selection_witness:
  "lower ''C++'' = ''c++'' \<and>
   SphinxPage ''C++'' ''x.rst'' =
     Inr \<lparr>language = ''C++'', nameTranslator = CppTranslator, langTranslator = CppLangTranslator,
          docTranslator = SphinxTranslator CppTranslator, filename = ''x.rst''\<rparr> \<and>
   get_subdirectory ''C++'' = Inr ''cpp'' \<and>
   get_subdirectory ''c'' = Inr ''c'' \<and>
   SphinxPage ''cpp'' ''x.rst'' = Inl (ValueError ''cpp'')"
  using language_selection_is_case_insensitive
      [where s = "''C++''" and f = "''x.rst''" and ext = ex_ext and es = "[]" and c = ex_class]
    language_selection_is_case_insensitive
      [where s = "''c''" and f = "''x.rst''" and ext = ex_ext and es = "[]" and c = ex_class]
    language_selection_is_case_insensitive
      [where s = "''cpp''" and f = "''x.rst''" and ext = ex_ext and es = "[]" and c = ex_class]
  by simp

subsection \<open>C10: a class with no namespace above it\<close>

text \<open>
  Claim C10. \<^verbatim>\<open>_get_translated_namespace\<close> reads the name of the result of
  \<^verbatim>\<open>find_first_ancestor_by_type\<close> with no test for \<^verbatim>\<open>None\<close>: it raises \<^verbatim>\<open>AttributeError\<close>
  exactly when the class has no \<^verbatim>\<open>Namespace\<close> ancestor. For such a class and every
  language of \<^verbatim>\<open>DocGenerator.languages\<close> (every supported language), the constructor
  of \<^verbatim>\<open>ClassPage\<close> fails with \<^verbatim>\<open>AttributeError\<close> and not with the \<^verbatim>\<open>ValueError\<close> of a
  configuration error, and the loop of \<^verbatim>\<open>generate\<close> stops there with nothing written for
  the class. For a class that has a \<^verbatim>\<open>Namespace\<close> ancestor the constructor never fails
  with \<^verbatim>\<open>AttributeError\<close>. (An unsupported language is refused by the base constructor
  before the namespace is looked up.)
\<close>

theorem missing_namespace_raises_AttributeError:
  "(get_translated_namespace ext self c = Inl AttributeError \<longleftrightarrow>
      find_first_ancestor_by_type ext c = None) \<and>
   (find_first_ancestor_by_type ext c = None \<and> lang \<in> set (languages (DocGenerator a)) \<longrightarrow>
      ClassPage ext c lang = Inl AttributeError \<and>
      ClassPage ext c lang \<noteq> Inl (ValueError lang) \<and>
      class_loop ext lang directory (c # cs) indexPage w = (Inl AttributeError, w)) \<and>
   (find_first_ancestor_by_type ext c = None \<and> (lower lang = ''c'' \<or> lower lang = ''c++'') \<longrightarrow>
      ClassPage ext c lang = Inl AttributeError) \<and>
   (find_first_ancestor_by_type ext c \<noteq> None \<longrightarrow>
      ClassPage ext c lang \<noteq> Inl AttributeError \<and>
      (\<forall>self. get_translated_namespace ext self c \<noteq> Inl AttributeError)) \<and>
   (lower lang \<noteq> ''c'' \<and> lower lang \<noteq> ''c++'' \<longrightarrow> ClassPage ext c lang = Inl (ValueError lang))"
proof -
  have sup: "find_first_ancestor_by_type ext c = None \<Longrightarrow>
      lower lang = ''c'' \<or> lower lang = ''c++'' \<Longrightarrow> ClassPage ext c lang = Inl AttributeError"
    by (auto simp: ClassPage_eq SphinxPage_eq)
  have ctx: "find_first_ancestor_by_type ext c = None \<Longrightarrow>
      lang \<in> set (languages (DocGenerator a)) \<Longrightarrow>
      ClassPage ext c lang = Inl AttributeError \<and>
      ClassPage ext c lang \<noteq> Inl (ValueError lang) \<and>
      class_loop ext lang directory (c # cs) indexPage w = (Inl AttributeError, w)"
    using sup DocGenerator_languages_supported[of lang a] by simp
  have rest: "(get_translated_namespace ext self c = Inl AttributeError \<longleftrightarrow>
      find_first_ancestor_by_type ext c = None) \<and>
   (find_first_ancestor_by_type ext c \<noteq> None \<longrightarrow>
      ClassPage ext c lang \<noteq> Inl AttributeError \<and>
      (\<forall>self. get_translated_namespace ext self c \<noteq> Inl AttributeError)) \<and>
   (lower lang \<noteq> ''c'' \<and> lower lang \<noteq> ''c++'' \<longrightarrow> ClassPage ext c lang = Inl (ValueError lang))"
    by (auto simp: ClassPage_eq SphinxPage_eq get_translated_namespace_def
        split: sum.splits option.splits if_splits)
  from sup ctx rest show ?thesis by blast
qed

theorem missing_namespace_witness:
  "find_first_ancestor_by_type ex_ext ex_orphan = None \<and>
   ''C'' \<in> set (languages (DocGenerator ex_parser)) \<and>
   ''C++'' \<in> set (languages (DocGenerator ex_parser)) \<and>
   ClassPage ex_ext ex_orphan ''C'' = Inl AttributeError \<and>
   ClassPage ex_ext ex_orphan ''C++'' = Inl AttributeError \<and>
   class_loop ex_ext ''C'' ''out/c'' [ex_orphan, ex_class]
     \<lparr>language = ''C'', nameTranslator = CTranslator, langTranslator = CLangTranslator,
      docTranslator = SphinxTranslator CTranslator, filename = ''index.rst'', tocEntries = []\<rparr>
     ex_world = (Inl AttributeError, ex_world) \<and>
   find_first_ancestor_by_type ex_ext ex_class \<noteq> None \<and>
   ClassPage ex_ext ex_class ''C'' \<noteq> Inl AttributeError"
proof -
  have a: "find_first_ancestor_by_type ex_ext ex_orphan = None"
    by (simp add: ex_ext_def ex_orphan_def)
  have b: "find_first_ancestor_by_type ex_ext ex_class \<noteq> None"
    by (simp add: ex_ext_def ex_class_def)
  have c: "''C'' \<in> set (languages (DocGenerator ex_parser))"
    and d: "''C++'' \<in> set (languages (DocGenerator ex_parser))"
    by (simp_all add: DocGenerator_def)
  show ?thesis
    using a b c d
      missing_namespace_raises_AttributeError
        [where ext = ex_ext and c = ex_orphan and lang = "''C''" and a = ex_parser
           and directory = "''out/c''" and cs = "[ex_class]" and w = ex_world and indexPage =
           "\<lparr>language = ''C'', nameTranslator = CTranslator, langTranslator = CLangTranslator,
             docTranslator = SphinxTranslator CTranslator, filename = ''index.rst'',
             tocEntries = []\<rparr>"]
      missing_namespace_raises_AttributeError
        [where ext = ex_ext and c = ex_orphan and lang = "''C++''" and a = ex_parser]
      missing_namespace_raises_AttributeError
        [where ext = ex_ext and c = ex_class and lang = "''C''"]
    by blast
qed

end
